theory Spec2Isabelle
  imports
    Complex_Main
    "HOL-Library.Sublist"
    "HOL-Library.Char_ord"
    "HOL-Library.List_Lexorder"
    "HOL-Library.Product_Lexorder"
begin

section \<open>Data model of the tailoring service\<close>

text \<open>
  The dataclass \<^verbatim>\<open>ExperienceSnippet\<close> of \<^verbatim>\<open>tailoring/services.py\<close>. The field
  \<^verbatim>\<open>source_ref\<close> is the raw entry the snippet was built from; the only thing the
  modelled code reads from it is the truthiness of \<^verbatim>\<open>source_ref.get("current")\<close>, which
  the field \<open>source_current\<close> holds.
\<close>

record ExperienceSnippet =
  snippet_id :: string
  bucket :: string
  title :: string
  organization :: string
  time_frame :: string
  summary :: string
  achievements :: "string list"
  skills :: "string list"
  source_current :: bool

text \<open>
  \<^verbatim>\<open>selected_snippets: Dict[str, List[ExperienceSnippet]]\<close>. A Python dict keeps its
  keys in insertion order; it is an association list here, read with \<open>map_of\<close>
  (\<^verbatim>\<open>.get\<close>), \<open>map fst\<close> (\<^verbatim>\<open>.keys()\<close>) and \<open>map snd\<close> (\<^verbatim>\<open>.values()\<close>).
\<close>

type_synonym selected_snippets = "(string \<times> ExperienceSnippet list) list"

text \<open>
  One entry of the section plan: the dict
  \<^verbatim>\<open>{"name": ..., "snippet_ids": ..., "use_full_pool": True}\<close>, whose last key is
  present only on the full-pool branches (\<open>None\<close> when the key is absent).
\<close>

record SectionPlanEntry =
  name :: string
  snippet_ids :: "string list"
  use_full_pool :: "bool option"

section \<open>SectionPlanner: \<^verbatim>\<open>_plan_sections\<close>\<close>

text \<open>\<^verbatim>\<open>all_snippet_ids\<close>: the ids of every snippet of every bucket, in dict order.\<close>

definition all_snippet_ids :: "selected_snippets \<Rightarrow> string list" where
  "all_snippet_ids selected = concat (map (\<lambda>snippets. map snippet_id snippets) (map snd selected))"

text \<open>Python's \<^verbatim>\<open>not snippets\<close> on the result of \<^verbatim>\<open>dict.get\<close>: \<^verbatim>\<open>None\<close> or the empty list.\<close>

definition not_snippets :: "ExperienceSnippet list option \<Rightarrow> bool" where
  "not_snippets snippets = (case snippets of None \<Rightarrow> True | Some xs \<Rightarrow> xs = [])"

text \<open>
  The inner loop over \<^verbatim>\<open>snippets\<close>: an id already in \<^verbatim>\<open>seen_ids\<close> is skipped, a new one
  is added to \<^verbatim>\<open>seen_ids\<close> and to \<^verbatim>\<open>snippet_ids\<close>. Returns both.
\<close>

fun dedup_snippet_ids :: "string set \<Rightarrow> ExperienceSnippet list \<Rightarrow> string list \<times> string set" where
  "dedup_snippet_ids seen_ids [] = ([], seen_ids)"
| "dedup_snippet_ids seen_ids (snippet # rest) =
     (if snippet_id snippet \<in> seen_ids then dedup_snippet_ids seen_ids rest
      else (case dedup_snippet_ids (insert (snippet_id snippet) seen_ids) rest of
              (ids, seen') \<Rightarrow> (snippet_id snippet # ids, seen')))"

text \<open>
  The loop \<^verbatim>\<open>for section_name in layout\<close>, with its three loop-carried variables
  (\<^verbatim>\<open>seen_ids\<close>, \<^verbatim>\<open>bucket_index\<close> and the plan, which is returned as the list of the entries
  appended).
\<close>

fun plan_loop ::
  "selected_snippets \<Rightarrow> string list \<Rightarrow> string set \<Rightarrow> nat \<Rightarrow> string list \<Rightarrow> SectionPlanEntry list"
where
  "plan_loop selected all_ids seen_ids bucket_index [] = []"
| "plan_loop selected all_ids seen_ids bucket_index (section_name # rest) =
     (let exact = map_of selected section_name;
          use_next = (not_snippets exact \<and> bucket_index < length selected);
          snippets = (if use_next then map_of selected (map fst selected ! bucket_index) else exact);
          bucket_index' = (if use_next then bucket_index + 1 else bucket_index)
      in (case snippets of
            None \<Rightarrow>
              \<lparr>name = section_name, snippet_ids = all_ids, use_full_pool = Some True\<rparr>
                # plan_loop selected all_ids seen_ids bucket_index' rest
          | Some [] \<Rightarrow>
              \<lparr>name = section_name, snippet_ids = all_ids, use_full_pool = Some True\<rparr>
                # plan_loop selected all_ids seen_ids bucket_index' rest
          | Some (s # ss) \<Rightarrow>
              (case dedup_snippet_ids seen_ids (s # ss) of
                 (ids, seen') \<Rightarrow>
                   (if ids \<noteq> []
                    then \<lparr>name = section_name, snippet_ids = ids, use_full_pool = None\<rparr>
                    else \<lparr>name = section_name, snippet_ids = all_ids, use_full_pool = Some True\<rparr>)
                   # plan_loop selected all_ids seen' bucket_index' rest)))"

definition plan_sections :: "selected_snippets \<Rightarrow> string list \<Rightarrow> SectionPlanEntry list" where
  "plan_sections selected layout =
     (if layout = []
      then map (\<lambda>(bucket, snippets).
                  \<lparr>name = bucket, snippet_ids = map snippet_id snippets, use_full_pool = None\<rparr>)
               selected
      else plan_loop selected (all_snippet_ids selected) {} 0 layout)"

section \<open>Properties of the section plan\<close>

lemma plan_loop_names:
  "map name (plan_loop selected all_ids seen_ids bucket_index layout) = layout"
proof (induction layout arbitrary: seen_ids bucket_index)
  case Nil
  show ?case by simp
next
  case (Cons section_name rest)
  show ?case
    by (simp add: Let_def Cons.IH split: option.split list.split prod.split)
qed

lemma count_by_name:
  "length (filter (\<lambda>e. name e = n) plan) = count_list (map name plan) n"
  by (induction plan) auto

text \<open>
  Claim C1, as amended. For a non-empty requested list \<open>layout\<close> of length N and any
  bucket-to-snippet mapping, the plan has exactly N entries, the names of the entries are
  the requested names in the requested order, and a name is the name of exactly as many
  entries as it occurs in the request (so of exactly one entry when the requested names are
  pairwise distinct).
\<close>

theorem plan_sections_names:
  assumes "layout \<noteq> []"
  shows "length (plan_sections selected layout) = length layout
       \<and> map name (plan_sections selected layout) = layout
       \<and> (\<forall>n. length (filter (\<lambda>e. name e = n) (plan_sections selected layout))
                = count_list layout n)"
proof -
  have names: "map name (plan_sections selected layout) = layout"
    using assms by (simp add: plan_sections_def plan_loop_names)
  have len: "length (plan_sections selected layout) = length layout"
    using names by (metis length_map)
  show ?thesis
    using names len by (simp add: count_by_name)
qed

definition snippet_example :: "string \<Rightarrow> string \<Rightarrow> ExperienceSnippet" where
  "snippet_example sid b =
     \<lparr>snippet_id = sid, bucket = b, title = ''Engineer'', organization = ''Acme'',
      time_frame = ''2023 - Present'', summary = ''Built services'',
      achievements = [''Built an API''], skills = [''Python''], source_current = False\<rparr>"

theorem plan_sections_names_witness:
  "[''Leadership'', ''Projects''] \<noteq> ([] :: string list)
   \<and> length (plan_sections [(''Projects'', [snippet_example ''s1'' ''Projects''])]
                 [''Leadership'', ''Projects'']) = 2
   \<and> map name (plan_sections [(''Projects'', [snippet_example ''s1'' ''Projects''])]
                 [''Leadership'', ''Projects'']) = [''Leadership'', ''Projects'']"
  using plan_sections_names
          [of "[''Leadership'', ''Projects'']" "[(''Projects'', [snippet_example ''s1'' ''Projects''])]"]
  by simp

text \<open>
  Claim C1 as stated fails when a name is requested twice: both occurrences get an entry,
  so the name is the name of two entries, not of exactly one.
\<close>

theorem plan_sections_duplicate_name_counterexample:
  "length (filter (\<lambda>e. name e = ''Skills'') (plan_sections [] [''Skills'', ''Skills''])) \<noteq> 1"
  by (simp add: plan_sections_def all_snippet_ids_def not_snippets_def)

text \<open>
  Claim C4, as amended. With requested sections \<^verbatim>\<open>["Leadership"]\<close> and the single bucket
  \<^verbatim>\<open>"Projects"\<close> holding one snippet \<open>s1\<close>, the plan is the single entry named
  \<^verbatim>\<open>"Leadership"\<close> with snippet ids \<^verbatim>\<open>[s1.id]\<close> and no \<^verbatim>\<open>use_full_pool\<close> key: the section
  consumes the next unassigned bucket, and the flag is set only on the full-pool fallback.
\<close>

theorem plan_sections_leadership_over_projects:
  "plan_sections [(''Projects'', [s1])] [''Leadership'']
     = [\<lparr>name = ''Leadership'', snippet_ids = [snippet_id s1], use_full_pool = None\<rparr>]"
  by (simp add: plan_sections_def all_snippet_ids_def not_snippets_def)

text \<open>
  Claim C4 as stated fails: at a concrete snippet with id \<^verbatim>\<open>s1\<close> the plan is not the entry
  flagged \<^verbatim>\<open>use_full_pool\<close>.
\<close>

theorem plan_sections_leadership_counterexample:
  "plan_sections [(''Projects'', [snippet_example ''s1'' ''Projects''])] [''Leadership'']
     \<noteq> [\<lparr>name = ''Leadership'', snippet_ids = [''s1''], use_full_pool = Some True\<rparr>]"
  by (simp add: plan_sections_def all_snippet_ids_def not_snippets_def snippet_example_def)

section \<open>Strings\<close>

text \<open>
  Python \<^verbatim>\<open>str\<close> values are modelled as \<open>string\<close> (lists of 8-bit characters), so the
  model covers ASCII text: \<^verbatim>\<open>str.lower\<close> maps \<^verbatim>\<open>A\<close>..\<^verbatim>\<open>Z\<close> to \<^verbatim>\<open>a\<close>..\<^verbatim>\<open>z\<close>, \<^verbatim>\<open>len\<close>
  counts characters, \<^verbatim>\<open>a in b\<close> on strings is the contiguous-substring test \<open>sublist\<close>.
\<close>

definition lower_char :: "char \<Rightarrow> char" where
  "lower_char c =
     (case map_of (zip ''ABCDEFGHIJKLMNOPQRSTUVWXYZ'' ''abcdefghijklmnopqrstuvwxyz'') c of
        Some d \<Rightarrow> d
      | None \<Rightarrow> c)"

definition lower :: "string \<Rightarrow> string" where
  "lower s = map lower_char s"

text \<open>\<^verbatim>\<open>sep.join(parts)\<close>.\<close>

fun join :: "string \<Rightarrow> string list \<Rightarrow> string" where
  "join sep [] = []"
| "join sep [x] = x"
| "join sep (x # y # ys) = x @ sep @ join sep (y # ys)"

definition is_digit :: "char \<Rightarrow> bool" where
  "is_digit c = (c \<in> set ''0123456789'')"

text \<open>
  \<^verbatim>\<open>len(re.findall(r'\d+', text))\<close>: the number of maximal runs of digits. The flag says
  whether the previous character was a digit.
\<close>

fun count_digit_runs :: "bool \<Rightarrow> string \<Rightarrow> nat" where
  "count_digit_runs in_run [] = 0"
| "count_digit_runs in_run (c # cs) =
     (if is_digit c then (if in_run then 0 else 1) + count_digit_runs True cs
      else count_digit_runs False cs)"

section \<open>Python floats\<close>

text \<open>
  A Python float is an IEEE 754 binary64 number. A finite one is a rational, and every
  arithmetic operation of the source on floats is the exact operation followed by the
  rounding \<open>fl\<close> to the nearest binary64 number, ties to the even significand; a decimal
  literal such as \<^verbatim>\<open>0.60\<close> is \<open>fl\<close> of its decimal value, and the true division of two
  Python ints is \<open>fl\<close> of the exact quotient.

  \<open>pow2 e\<close> is \<open>2\<close> to the power \<open>e\<close>, and \<open>binade x\<close> the exponent of the binade of \<open>x\<close>:
  the greatest \<open>e\<close> from \<open>- 1022\<close> to \<open>1023\<close> with \<open>pow2 e \<le> x\<close>, and \<open>- 1022\<close> for the
  subnormal numbers below. The numbers of that binade are the multiples of
  \<open>pow2 (e - 52)\<close>. Overflow to infinity is left out: \<open>fl\<close> is used below on values of at
  most 100 and on list lengths, which CPython keeps below \<open>2 ^ 63\<close>.
\<close>

definition pow2 :: "int \<Rightarrow> rat" where
  "pow2 e = (if 0 \<le> e then 2 ^ nat e else 1 / 2 ^ nat (- e))"

text \<open>Rounding of a rational to the nearest integer, ties to the even one.\<close>

definition round_half_even :: "rat \<Rightarrow> int" where
  "round_half_even t =
     (let f = \<lfloor>t\<rfloor>; d = t - of_int f
      in if d < 1 / 2 then f else if 1 / 2 < d then f + 1
         else if even f then f else f + 1)"

function binade_from :: "int \<Rightarrow> rat \<Rightarrow> int" where
  "binade_from e x =
     (if e \<le> - 1022 then - 1022 else if pow2 e \<le> x then e else binade_from (e - 1) x)"
  by pat_completeness auto
termination
  by (relation "measure (\<lambda>(e, x). nat (e + 1022))") auto

declare binade_from.simps [simp del]

definition binade :: "rat \<Rightarrow> int" where
  "binade x = binade_from 1023 x"

definition fl_pos :: "rat \<Rightarrow> rat" where
  "fl_pos x = (let q = pow2 (binade x - 52) in of_int (round_half_even (x / q)) * q)"

definition fl :: "rat \<Rightarrow> rat" where
  "fl x = (if 0 \<le> x then fl_pos x else - fl_pos (- x))"

subsection \<open>Properties of the rounding\<close>

lemma pow2_eq: "pow2 e = 2 powi e"
  by (simp add: pow2_def power_int_def field_simps)

lemma pow2_pos [simp]: "0 < pow2 e"
  by (simp add: pow2_eq)

lemma pow2_nonneg [simp]: "0 \<le> pow2 e"
  by (simp add: pow2_eq)

lemma pow2_nonzero [simp]: "pow2 e \<noteq> 0"
  by (simp add: pow2_eq)

lemma pow2_add: "pow2 (a + b) = pow2 a * pow2 b"
  by (simp add: pow2_eq power_int_add)

lemma pow2_mono: "a \<le> b \<Longrightarrow> pow2 a \<le> pow2 b"
  by (simp add: pow2_eq power_int_increasing)

lemma pow2_nat: "pow2 (int n) = 2 ^ n"
  by (simp add: pow2_def)

lemma binade_from_range:
  "- 1022 \<le> e \<Longrightarrow> - 1022 \<le> binade_from e x \<and> binade_from e x \<le> e"
proof (induction e x rule: binade_from.induct)
  case (1 e x)
  show ?case
  proof (cases "e \<le> - 1022 \<or> pow2 e \<le> x")
    case True
    with 1(2) show ?thesis by (subst (1 2) binade_from.simps) auto
  next
    case False
    then have "binade_from e x = binade_from (e - 1) x"
      by (subst binade_from.simps) simp
    with 1(1) False show ?thesis by auto
  qed
qed

lemma binade_from_lower:
  "- 1022 < binade_from e x \<Longrightarrow> pow2 (binade_from e x) \<le> x"
  by (induction e x rule: binade_from.induct)
     (subst (asm) (2) binade_from.simps, subst binade_from.simps, auto split: if_splits)

lemma binade_from_upper:
  "- 1022 \<le> e \<Longrightarrow> binade_from e x < e \<Longrightarrow> x < pow2 (binade_from e x + 1)"
proof (induction e x rule: binade_from.induct)
  case (1 e x)
  show ?case
  proof (cases "e \<le> - 1022")
    case True
    with 1(2,3) show ?thesis by (subst (asm) binade_from.simps) simp
  next
    case False
    show ?thesis
    proof (cases "pow2 e \<le> x")
      case True
      with False 1(3) show ?thesis by (subst (asm) binade_from.simps) simp
    next
      case lt: False
      have eq: "binade_from e x = binade_from (e - 1) x"
        using False lt by (subst binade_from.simps) simp
      show ?thesis
      proof (cases "binade_from (e - 1) x < e - 1")
        case True
        with 1(1)[OF False lt] False show ?thesis by (simp add: eq)
      next
        case False
        with binade_from_range[of "e - 1" x] \<open>\<not> e \<le> - 1022\<close>
        have "binade_from (e - 1) x = e - 1" by simp
        with lt show ?thesis by (simp add: eq)
      qed
    qed
  qed
qed


lemma binade_range: "- 1022 \<le> binade x \<and> binade x \<le> 1023"
  unfolding binade_def using binade_from_range[of 1023 x] by simp

lemma binade_lower: "- 1022 < binade x \<Longrightarrow> pow2 (binade x) \<le> x"
  unfolding binade_def by (rule binade_from_lower)

lemma binade_upper: "binade x < 1023 \<Longrightarrow> x < pow2 (binade x + 1)"
  unfolding binade_def by (rule binade_from_upper) simp_all

lemma binade_unique:
  assumes "- 1022 \<le> e" "e \<le> 1023" "pow2 e \<le> x" "x < pow2 (e + 1)"
  shows "binade x = e"
proof (rule ccontr)
  assume ne: "binade x \<noteq> e"
  show False
  proof (cases "binade x < e")
    case True
    then have "x < pow2 (binade x + 1)" using assms(2) by (intro binade_upper) simp
    also have "\<dots> \<le> pow2 e" using True by (intro pow2_mono) simp
    finally show False using assms(3) by simp
  next
    case False
    then have gt: "e < binade x" using ne by simp
    then have "pow2 (binade x) \<le> x" using assms(1) by (intro binade_lower) simp
    moreover have "pow2 (e + 1) \<le> pow2 (binade x)" using gt by (intro pow2_mono) simp
    ultimately show False using assms(4) by simp
  qed
qed

lemma binade_mono:
  assumes "x \<le> y"
  shows "binade x \<le> binade y"
proof (rule ccontr)
  assume "\<not> binade x \<le> binade y"
  then have gt: "binade y < binade x" by simp
  have "pow2 (binade x) \<le> x" using gt binade_range[of y] by (intro binade_lower) simp
  moreover have "y < pow2 (binade y + 1)" using gt binade_range[of x] by (intro binade_upper) simp
  moreover have "pow2 (binade y + 1) \<le> pow2 (binade x)" using gt by (intro pow2_mono) simp
  ultimately show False using assms by simp
qed

lemma round_half_even_of_int [simp]: "round_half_even (of_int n) = n"
  by (simp add: round_half_even_def)

lemma round_half_even_mono:
  assumes "s \<le> t"
  shows "round_half_even s \<le> round_half_even t"
proof -
  have fl: "\<lfloor>s\<rfloor> \<le> \<lfloor>t\<rfloor>" using assms by (rule floor_mono)
  have s: "round_half_even s \<le> \<lfloor>s\<rfloor> + 1" and t: "\<lfloor>t\<rfloor> \<le> round_half_even t"
    by (simp_all add: round_half_even_def Let_def)
  show ?thesis
  proof (cases "\<lfloor>s\<rfloor> = \<lfloor>t\<rfloor>")
    case True
    then have "s - of_int \<lfloor>s\<rfloor> \<le> t - of_int \<lfloor>t\<rfloor>" using assms by simp
    then show ?thesis using True by (auto simp: round_half_even_def Let_def)
  next
    case False
    then have "\<lfloor>s\<rfloor> + 1 \<le> \<lfloor>t\<rfloor>" using fl by simp
    then show ?thesis using s t by linarith
  qed
qed

lemma round_half_even_le: "t \<le> of_int n \<Longrightarrow> round_half_even t \<le> n"
  using round_half_even_mono[of t "of_int n"] by simp

lemma round_half_even_ge: "of_int n \<le> t \<Longrightarrow> n \<le> round_half_even t"
  using round_half_even_mono[of "of_int n" t] by simp

lemma pow2_numeral: "pow2 (numeral w) = 2 ^ numeral w"
  by (simp add: pow2_def)

lemma round_half_even_near:
  assumes "of_int n - 1 / 2 < t" "t < of_int n + 1 / 2"
  shows "round_half_even t = n"
proof (cases "of_int n \<le> t")
  case True
  then have "\<lfloor>t\<rfloor> = n" using assms(2) by (intro floor_unique) auto
  then show ?thesis using assms(2) by (simp add: round_half_even_def Let_def)
next
  case False
  then have "\<lfloor>t\<rfloor> = n - 1" using assms(1) by (intro floor_unique) auto
  then show ?thesis using assms(1) by (simp add: round_half_even_def Let_def)
qed

lemma fl_pos_upper:
  assumes "x < pow2 (binade x + 1)"
  shows "fl_pos x \<le> pow2 (binade x + 1)"
proof -
  define q where "q = pow2 (binade x - 52)"
  have q: "0 < q" by (simp add: q_def)
  have "pow2 (binade x + 1) = pow2 53 * pow2 (binade x - 52)"
    using pow2_add[of 53 "binade x - 52"] by (simp add: algebra_simps)
  then have p: "pow2 (binade x + 1) = 2 ^ 53 * q"
    by (simp add: pow2_numeral q_def)
  have "x / q \<le> of_int (2 ^ 53)" using assms q unfolding p by (simp add: divide_le_eq)
  then have "round_half_even (x / q) \<le> 2 ^ 53" by (rule round_half_even_le)
  then have "(of_int (round_half_even (x / q)) :: rat) \<le> of_int (2 ^ 53)"
    by (simp only: of_int_le_iff)
  then have "of_int (round_half_even (x / q)) * q \<le> 2 ^ 53 * q"
    using q by (simp add: mult_le_cancel_right)
  then show ?thesis unfolding p by (simp add: fl_pos_def Let_def q_def)
qed

lemma fl_pos_lower:
  assumes "pow2 (binade x) \<le> x"
  shows "pow2 (binade x) \<le> fl_pos x"
proof -
  define q where "q = pow2 (binade x - 52)"
  have q: "0 < q" by (simp add: q_def)
  have "pow2 (binade x) = pow2 52 * pow2 (binade x - 52)"
    using pow2_add[of 52 "binade x - 52"] by simp
  then have p: "pow2 (binade x) = 2 ^ 52 * q"
    by (simp add: pow2_numeral q_def)
  have "of_int (2 ^ 52) \<le> x / q" using assms q unfolding p by (simp add: le_divide_eq)
  then have "2 ^ 52 \<le> round_half_even (x / q)" by (rule round_half_even_ge)
  then have "(of_int (2 ^ 52) :: rat) \<le> of_int (round_half_even (x / q))"
    by (simp only: of_int_le_iff)
  then have "2 ^ 52 * q \<le> of_int (round_half_even (x / q)) * q"
    using q by (simp add: mult_le_cancel_right)
  then show ?thesis unfolding p by (simp add: fl_pos_def Let_def q_def)
qed

lemma fl_pos_mono:
  assumes "x \<le> y"
  shows "fl_pos x \<le> fl_pos y"
proof (cases "binade x = binade y")
  case True
  have "x / pow2 (binade y - 52) \<le> y / pow2 (binade y - 52)"
    using assms by (simp add: divide_right_mono)
  then have "round_half_even (x / pow2 (binade y - 52))
             \<le> round_half_even (y / pow2 (binade y - 52))"
    by (rule round_half_even_mono)
  then have "(of_int (round_half_even (x / pow2 (binade y - 52))) :: rat)
             \<le> of_int (round_half_even (y / pow2 (binade y - 52)))"
    by (simp only: of_int_le_iff)
  then show ?thesis
    by (simp add: fl_pos_def Let_def True mult_right_mono)
next
  case False
  then have lt: "binade x < binade y" using binade_mono[OF assms] by simp
  have "fl_pos x \<le> pow2 (binade x + 1)"
    using lt binade_range[of y] by (intro fl_pos_upper binade_upper) simp
  also have "\<dots> \<le> pow2 (binade y)" using lt by (intro pow2_mono) simp
  also have "\<dots> \<le> fl_pos y"
    using lt binade_range[of x] by (intro fl_pos_lower binade_lower) simp
  finally show ?thesis .
qed

lemma fl_pos_nonneg: "0 \<le> x \<Longrightarrow> 0 \<le> fl_pos x"
proof -
  assume "0 \<le> x"
  then have "of_int 0 \<le> x / pow2 (binade x - 52)" by simp
  then have "0 \<le> round_half_even (x / pow2 (binade x - 52))" by (rule round_half_even_ge)
  then show ?thesis by (simp add: fl_pos_def Let_def)
qed

lemma fl_nonneg: "0 \<le> x \<Longrightarrow> 0 \<le> fl x"
  by (simp add: fl_def fl_pos_nonneg)

lemma fl_mono: "0 \<le> x \<Longrightarrow> x \<le> y \<Longrightarrow> fl x \<le> fl y"
  by (simp add: fl_def fl_pos_mono)

lemma fl_zero [simp]: "fl 0 = 0"
  using round_half_even_of_int[of 0] by (simp add: fl_def fl_pos_def)

text \<open>Integers below \<open>2 ^ 53\<close> are doubles.\<close>

lemma fl_of_nat:
  assumes "n < 2 ^ 53"
  shows "fl (of_nat n) = of_nat n"
proof -
  define x :: rat where "x = of_nat n"
  define k where "k = nat (52 - binade x)"
  have le: "binade x \<le> 52"
  proof (rule ccontr)
    assume "\<not> binade x \<le> 52"
    then have gt: "53 \<le> binade x" by simp
    then have "pow2 (binade x) \<le> x" by (intro binade_lower) simp
    moreover have "pow2 53 \<le> pow2 (binade x)" using gt by (rule pow2_mono)
    moreover have "x < pow2 53"
    proof -
      have "(of_nat n :: rat) < of_nat (2 ^ 53)" using assms by (simp only: of_nat_less_iff)
      then show ?thesis by (simp add: pow2_numeral x_def)
    qed
    ultimately show False by simp
  qed
  have q: "pow2 (binade x - 52) = 1 / 2 ^ k"
    using le by (auto simp: pow2_def k_def)
  have "x / pow2 (binade x - 52) = of_int (int n * 2 ^ k)"
    unfolding q by (simp add: x_def)
  then have "round_half_even (x / pow2 (binade x - 52)) = int n * 2 ^ k"
    by (simp only: round_half_even_of_int)
  then have "fl_pos x = of_int (int n * 2 ^ k) * (1 / 2 ^ k)"
    unfolding fl_pos_def Let_def q by (simp only:)
  then have "fl_pos x = x"
    by (simp add: x_def)
  moreover have "0 \<le> x" by (simp add: x_def)
  ultimately have "fl x = x" by (simp add: fl_def)
  then show ?thesis by (simp only: x_def)
qed

lemma fl_numeral: "numeral w < (2 ^ 53 :: nat) \<Longrightarrow> fl (numeral w) = numeral w"
  using fl_of_nat[of "numeral w"] by simp

lemma fl_one [simp]: "fl 1 = 1"
  using fl_of_nat[of 1] by simp

text \<open>The rounding inside a known binade.\<close>

lemma fl_in_binade:
  assumes "- 1022 \<le> e" "e \<le> 1023" "pow2 e \<le> x" "x < pow2 (e + 1)"
  shows "fl x = of_int (round_half_even (x / pow2 (e - 52))) * pow2 (e - 52)"
proof -
  have "0 < x" using assms(3) pow2_pos[of e] by linarith
  then show ?thesis
    by (simp add: fl_def fl_pos_def Let_def binade_unique[OF assms])
qed

lemma fl_06: "fl (6 / 10) = 5404319552844595 / 2 ^ 53"
  by (simp add: fl_in_binade[of "- 1"] pow2_def round_half_even_near[of 5404319552844595])

lemma fl_03: "fl (3 / 10) = 5404319552844595 / 2 ^ 54"
  by (simp add: fl_in_binade[of "- 2"] pow2_def round_half_even_near[of 5404319552844595])

lemma fl_01: "fl (1 / 10) = 3602879701896397 / 2 ^ 55"
  by (simp add: fl_in_binade[of "- 4"] pow2_def round_half_even_near[of 7205759403792794])

lemma fl_100_01: "fl (100 * fl (1 / 10)) = 10"
  by (simp add: fl_01 fl_in_binade[of 3] pow2_def round_half_even_near[of 5629499534213120])

section \<open>ATSScorer: \<^verbatim>\<open>ResumeOptimizer.calculate_ats_score\<close>\<close>

text \<open>
  Scores are Python floats in the source: each is the rational value of a binary64 number,
  and every operation on them is rounded by \<open>fl\<close>. The comparisons of the source compare
  the exact values of the floats.

  \<^verbatim>\<open>round(x, 1)\<close> rounds the exact value of the float \<^verbatim>\<open>x\<close> to one decimal, ties to the
  even digit, and returns the float nearest to that decimal.
\<close>

definition round1 :: "rat \<Rightarrow> rat" where
  "round1 x = fl (of_int (round_half_even (x * 10)) / 10)"

text \<open>
  The result dict. The keys \<^verbatim>\<open>matched_required\<close> and \<^verbatim>\<open>matched_preferred\<close> are absent
  (\<open>None\<close>) in the dict of the early return.
\<close>

record ats_score =
  overall_score :: rat
  keyword_match :: rat
  required_skills_match :: rat
  preferred_skills_match :: rat
  missing_critical :: "string list"
  missing_preferred :: "string list"
  matched_required :: "string list option"
  matched_preferred :: "string list option"
  suggestions :: "string list"

text \<open>Python's \<^verbatim>\<open>not xs\<close> for an \<^verbatim>\<open>Optional[List[str]]\<close>: \<^verbatim>\<open>None\<close> or empty.\<close>

definition not_list :: "'a list option \<Rightarrow> bool" where
  "not_list xs = (case xs of None \<Rightarrow> True | Some ys \<Rightarrow> ys = [])"

text \<open>
  The filter of both skill loops:
  \<^verbatim>\<open>len(skill) <= 2 or skill.lower() in ['a', 'an', 'the', 'aid', 'it', 'is']\<close>.
\<close>

definition trivial_skill :: "string \<Rightarrow> bool" where
  "trivial_skill skill =
     (length skill \<le> 2 \<or> lower skill \<in> set [''a'', ''an'', ''the'', ''aid'', ''it'', ''is''])"

text \<open>
  One skill loop (the required and the preferred loops are the same code): the skills that
  are not skipped, split into those found in the resume text and those missing, in order.
\<close>

definition matched_skills :: "string \<Rightarrow> string list \<Rightarrow> string list" where
  "matched_skills resume_text skill_list =
     filter (\<lambda>skill. \<not> trivial_skill skill \<and> sublist (lower skill) resume_text) skill_list"

definition missing_skills :: "string \<Rightarrow> string list \<Rightarrow> string list" where
  "missing_skills resume_text skill_list =
     filter (\<lambda>skill. \<not> trivial_skill skill \<and> \<not> sublist (lower skill) resume_text) skill_list"

text \<open>\<^verbatim>\<open>(matches / total) * 100\<close>, taken only where the source has checked \<^verbatim>\<open>total > 0\<close>.\<close>

definition pct :: "nat \<Rightarrow> nat \<Rightarrow> rat" where
  "pct matches total_valid = fl (fl (of_nat matches / of_nat total_valid) * 100)"

definition keyword_match_pct :: "string \<Rightarrow> string list \<Rightarrow> rat" where
  "keyword_match_pct resume_text job_keywords =
     (if job_keywords \<noteq> []
      then pct (length (filter (\<lambda>kw. sublist (lower kw) resume_text) job_keywords))
               (length job_keywords)
      else 0)"

definition required_match_pct :: "string \<Rightarrow> string list option \<Rightarrow> rat" where
  "required_match_pct resume_text required_skills =
     (case required_skills of
        None \<Rightarrow> 100
      | Some skill_list \<Rightarrow>
          if skill_list = [] then 100
          else (let required_matches = length (matched_skills resume_text skill_list);
                    total_valid_required =
                      required_matches + length (missing_skills resume_text skill_list)
                in if total_valid_required > 0 then pct required_matches total_valid_required
                   else 100))"

definition preferred_match_pct :: "string \<Rightarrow> string list option \<Rightarrow> rat" where
  "preferred_match_pct resume_text preferred_skills =
     (case preferred_skills of
        None \<Rightarrow> 0
      | Some skill_list \<Rightarrow>
          if skill_list = [] then 0
          else (let preferred_matches = length (matched_skills resume_text skill_list);
                    total_valid_preferred =
                      preferred_matches + length (missing_skills resume_text skill_list)
                in if total_valid_preferred > 0 then pct preferred_matches total_valid_preferred
                   else 0))"

text \<open>
  \<^verbatim>\<open>(required_match_pct * 0.60) + (keyword_match_pct * 0.30) + (preferred_match_pct * 0.10)\<close>:
  three rounded products, added from left to right with a rounding after each sum.
\<close>

definition weighted_score :: "rat \<Rightarrow> rat \<Rightarrow> rat \<Rightarrow> rat" where
  "weighted_score required_pct keyword_pct preferred_pct =
     fl (fl (fl (required_pct * fl (60 / 100)) + fl (keyword_pct * fl (30 / 100)))
         + fl (preferred_pct * fl (10 / 100)))"

text \<open>The lists \<^verbatim>\<open>missing_required\<close> and \<^verbatim>\<open>missing_preferred\<close> (empty when the argument is falsy).\<close>

definition missing_of :: "string \<Rightarrow> string list option \<Rightarrow> string list" where
  "missing_of resume_text skills_opt =
     (case skills_opt of None \<Rightarrow> [] | Some skill_list \<Rightarrow> missing_skills resume_text skill_list)"

definition matched_of :: "string \<Rightarrow> string list option \<Rightarrow> string list" where
  "matched_of resume_text skills_opt =
     (case skills_opt of None \<Rightarrow> [] | Some skill_list \<Rightarrow> matched_skills resume_text skill_list)"

text \<open>The suggestions, in the order the source appends them.\<close>

definition required_suggestion :: "string list \<Rightarrow> string list" where
  "required_suggestion missing_required =
     (if missing_required \<noteq> []
      then (let top_missing = take 3 missing_required
            in if length top_missing = 1
               then [''Add required skill: '' @ hd top_missing
                     @ '' - Include specific examples of how you've used this in your experience'']
               else [''Add required skills: '' @ join '', '' top_missing
                     @ '' - Weave these into your achievement descriptions with concrete examples''])
      else [])"

definition keyword_suggestion :: "string \<Rightarrow> string list \<Rightarrow> rat \<Rightarrow> string list" where
  "keyword_suggestion resume_text job_keywords keyword_pct =
     (if keyword_pct < 60 \<and> job_keywords \<noteq> []
      then (let missing_keywords =
                  take 5 (filter (\<lambda>kw. \<not> sublist (lower kw) resume_text) job_keywords)
            in if missing_keywords \<noteq> []
               then [''Strengthen keyword coverage by incorporating: '' @ join '', '' missing_keywords
                     @ '' - Use these terms naturally when describing relevant work'']
               else [])
      else [])"

definition preferred_suggestion :: "string list \<Rightarrow> rat \<Rightarrow> string list" where
  "preferred_suggestion missing_pref preferred_pct =
     (if missing_pref \<noteq> [] \<and> preferred_pct < 40
      then (let top_preferred = filter (\<lambda>s. length s > 2) (take 3 missing_pref)
            in if top_preferred \<noteq> []
               then [''Consider highlighting: '' @ join '', '' top_preferred
                     @ '' - These preferred skills could differentiate your application'']
               else [])
      else [])"

definition band_suggestion :: "rat \<Rightarrow> string" where
  "band_suggestion score =
     (if score \<ge> 85
      then ''Strong ATS compatibility - Your resume aligns well with job requirements''
      else if score \<ge> 70
      then ''Good foundation - Focus on incorporating the missing required skills to reach excellent ATS compatibility''
      else if score \<ge> 50
      then ''Moderate ATS match - Priority: add required skills with specific examples from your experience''
      else ''Significant gaps in required skills - Review job posting carefully and align your resume with key requirements'')"

definition metrics_suggestion :: "string \<Rightarrow> string list \<Rightarrow> string list" where
  "metrics_suggestion resume_text bullet_points =
     (if of_nat (count_digit_runs False resume_text)
           < fl (fl (of_nat (length bullet_points)) * (5 / 10))
      then [''Add quantifiable metrics to your achievements (e.g., percentages, dollar amounts, time savings, user scale)'']
      else [])"

definition calculate_ats_score ::
  "string list \<Rightarrow> string list \<Rightarrow> string list option \<Rightarrow> string list option \<Rightarrow> ats_score"
where
  "calculate_ats_score bullet_points job_keywords required_skills preferred_skills =
     (if job_keywords = [] \<and> not_list required_skills
      then \<lparr>overall_score = 0, keyword_match = 0, required_skills_match = 0,
            preferred_skills_match = 0, missing_critical = [], missing_preferred = [],
            matched_required = None, matched_preferred = None,
            suggestions = [''No job requirements provided for analysis'']\<rparr>
      else
        (let resume_text = lower (join '' '' bullet_points);
             keyword_pct = keyword_match_pct resume_text job_keywords;
             required_pct = required_match_pct resume_text required_skills;
             preferred_pct = preferred_match_pct resume_text preferred_skills;
             missing_required = missing_of resume_text required_skills;
             missing_pref = missing_of resume_text preferred_skills;
             score = weighted_score required_pct keyword_pct preferred_pct
         in \<lparr>overall_score = round1 score,
              keyword_match = round1 keyword_pct,
              required_skills_match = round1 required_pct,
              preferred_skills_match = round1 preferred_pct,
              missing_critical = take 10 missing_required,
              missing_preferred = take 10 missing_pref,
              matched_required = Some (matched_of resume_text required_skills),
              matched_preferred = Some (matched_of resume_text preferred_skills),
              suggestions =
                required_suggestion missing_required
                @ keyword_suggestion resume_text job_keywords keyword_pct
                @ preferred_suggestion missing_pref preferred_pct
                @ [band_suggestion score]
                @ metrics_suggestion resume_text bullet_points\<rparr>))"

section \<open>Properties of the ATS score\<close>

lemma fl_100: "fl 100 = 100"
  by (rule fl_numeral) simp

lemma fl_unit_interval:
  assumes "0 \<le> x" "x \<le> c" "fl c = c"
  shows "0 \<le> fl x \<and> fl x \<le> c"
  using fl_nonneg[OF assms(1)] fl_mono[OF assms(1,2)] assms(3) by simp

lemma pct_bounds: "m \<le> n \<Longrightarrow> 0 \<le> pct m n \<and> pct m n \<le> 100"
proof -
  assume mn: "m \<le> n"
  have "0 \<le> (of_nat m / of_nat n :: rat) \<and> (of_nat m / of_nat n :: rat) \<le> 1"
    using mn by (cases "n = 0") (auto simp: divide_le_eq)
  then have "0 \<le> fl (of_nat m / of_nat n) \<and> fl (of_nat m / of_nat n) \<le> 1"
    by (intro fl_unit_interval) simp_all
  then have "0 \<le> fl (of_nat m / of_nat n) * 100 \<and> fl (of_nat m / of_nat n) * 100 \<le> 100"
    by simp
  then show ?thesis
    unfolding pct_def by (intro fl_unit_interval fl_100) simp_all
qed

lemma keyword_match_pct_bounds:
  "0 \<le> keyword_match_pct t kws \<and> keyword_match_pct t kws \<le> 100"
  unfolding keyword_match_pct_def using pct_bounds[OF length_filter_le] by auto

lemma required_match_pct_bounds:
  "0 \<le> required_match_pct t r \<and> required_match_pct t r \<le> 100"
  unfolding required_match_pct_def Let_def
  using pct_bounds[of "length (matched_skills t xs)"
                      "length (matched_skills t xs) + length (missing_skills t xs)" for xs]
  by (auto split: option.split)

lemma preferred_match_pct_bounds:
  "0 \<le> preferred_match_pct t r \<and> preferred_match_pct t r \<le> 100"
  unfolding preferred_match_pct_def Let_def
  using pct_bounds[of "length (matched_skills t xs)"
                      "length (matched_skills t xs) + length (missing_skills t xs)" for xs]
  by (auto split: option.split)

text \<open>
  A rounded product with a weight stays under the weight's share: the floats \<^verbatim>\<open>0.60\<close> and
  \<^verbatim>\<open>0.30\<close> lie below the decimals they stand for, and \<^verbatim>\<open>100 * 0.10\<close> rounds to 10.
\<close>

lemma weighted_part:
  assumes "0 \<le> x" "x \<le> 100" "0 \<le> w" "fl (100 * w) \<le> c"
  shows "0 \<le> fl (x * w) \<and> fl (x * w) \<le> c"
proof -
  have "0 \<le> x * w" using assms(1,3) by simp
  moreover have "x * w \<le> 100 * w" using assms(2,3) by (simp add: mult_right_mono)
  ultimately show ?thesis
    using fl_nonneg[of "x * w"] fl_mono[of "x * w" "100 * w"] assms(4) by simp
qed

lemma weighted_score_bounds:
  assumes "0 \<le> r \<and> r \<le> 100" "0 \<le> k \<and> k \<le> 100" "0 \<le> p \<and> p \<le> 100"
  shows "0 \<le> weighted_score r k p \<and> weighted_score r k p \<le> 100"
proof -
  have e60: "fl (60 / 100) = 5404319552844595 / 2 ^ 53" using fl_06 by simp
  have e30: "fl (30 / 100) = 5404319552844595 / 2 ^ 54" using fl_03 by simp
  have e10: "fl (10 / 100) = fl (1 / 10)" by simp
  have "fl (100 * (5404319552844595 / 2 ^ 53)) \<le> fl 60"
    by (rule fl_mono) simp_all
  moreover have "fl 60 = 60" by (rule fl_numeral) simp
  ultimately have c60: "fl (100 * fl (60 / 100)) \<le> 60" by (simp only: e60)
  have "fl (100 * (5404319552844595 / 2 ^ 54)) \<le> fl 30"
    by (rule fl_mono) simp_all
  moreover have "fl 30 = 30" by (rule fl_numeral) simp
  ultimately have c30: "fl (100 * fl (30 / 100)) \<le> 30" by (simp only: e30)
  have c10: "fl (100 * fl (10 / 100)) \<le> 10"
    by (simp only: e10 fl_100_01)
  have a: "0 \<le> fl (r * fl (60 / 100)) \<and> fl (r * fl (60 / 100)) \<le> 60"
    using assms(1) c60 by (intro weighted_part) (simp_all add: fl_nonneg)
  have b: "0 \<le> fl (k * fl (30 / 100)) \<and> fl (k * fl (30 / 100)) \<le> 30"
    using assms(2) c30 by (intro weighted_part) (simp_all add: fl_nonneg)
  have c: "0 \<le> fl (p * fl (10 / 100)) \<and> fl (p * fl (10 / 100)) \<le> 10"
    using assms(3) c10 by (intro weighted_part) (simp_all add: fl_nonneg)
  have ab: "0 \<le> fl (fl (r * fl (60 / 100)) + fl (k * fl (30 / 100)))
          \<and> fl (fl (r * fl (60 / 100)) + fl (k * fl (30 / 100))) \<le> 90"
    using a b by (intro fl_unit_interval fl_numeral) simp_all
  show ?thesis
    unfolding weighted_score_def using ab c by (intro fl_unit_interval fl_100) simp_all
qed

text \<open>Rounding to one decimal keeps a value inside the interval from 0 to 100.\<close>

lemma round1_bounds:
  assumes "0 \<le> x" "x \<le> 100"
  shows "0 \<le> round1 x \<and> round1 x \<le> 100"
proof -
  have "of_int 0 \<le> x * 10" "x * 10 \<le> of_int 1000" using assms by simp_all
  then have "0 \<le> round_half_even (x * 10)" "round_half_even (x * 10) \<le> 1000"
    by (simp_all only: round_half_even_ge round_half_even_le)
  then have "(of_int 0 :: rat) \<le> of_int (round_half_even (x * 10))"
            "(of_int (round_half_even (x * 10)) :: rat) \<le> of_int 1000"
    by (simp_all only: of_int_le_iff)
  then have "0 \<le> (of_int (round_half_even (x * 10)) / 10 :: rat)"
            "(of_int (round_half_even (x * 10)) / 10 :: rat) \<le> 100"
    by simp_all
  then show ?thesis
    unfolding round1_def by (intro fl_unit_interval fl_100)
qed

text \<open>
  Claim C8. For every list of bullet points, every keyword list and every required and
  preferred skill list (absent or present), the \<^verbatim>\<open>overall_score\<close> returned by
  \<^verbatim>\<open>calculate_ats_score\<close> lies between 0 and 100.
\<close>

theorem calculate_ats_score_range:
  "0 \<le> overall_score (calculate_ats_score bullet_points job_keywords required_skills preferred_skills)
   \<and> overall_score (calculate_ats_score bullet_points job_keywords required_skills preferred_skills)
       \<le> 100"
proof -
  have w: "0 \<le> weighted_score (required_match_pct t required_skills)
                  (keyword_match_pct t job_keywords) (preferred_match_pct t preferred_skills)
         \<and> weighted_score (required_match_pct t required_skills)
                  (keyword_match_pct t job_keywords) (preferred_match_pct t preferred_skills)
             \<le> 100" for t
    by (rule weighted_score_bounds
          [OF required_match_pct_bounds keyword_match_pct_bounds preferred_match_pct_bounds])
  show ?thesis
    using round1_bounds w by (simp add: calculate_ats_score_def Let_def)
qed

text \<open>
  Claim C10. Whenever \<^verbatim>\<open>job_keywords\<close> and \<^verbatim>\<open>required_skills\<close> are both empty (or the
  latter is \<^verbatim>\<open>None\<close>), \<^verbatim>\<open>calculate_ats_score\<close> returns \<^verbatim>\<open>overall_score\<close> 0 and the single
  suggestion \<^verbatim>\<open>"No job requirements provided for analysis"\<close>, whatever the bullet points
  and the preferred skills are.
\<close>

theorem calculate_ats_score_no_requirements:
  assumes "job_keywords = []" and "not_list required_skills"
  shows "overall_score
           (calculate_ats_score bullet_points job_keywords required_skills preferred_skills) = 0
       \<and> suggestions
           (calculate_ats_score bullet_points job_keywords required_skills preferred_skills)
           = [''No job requirements provided for analysis'']"
  using assms by (simp add: calculate_ats_score_def)

theorem calculate_ats_score_no_requirements_witness:
  "([] :: string list) = [] \<and> not_list (Some ([] :: string list))
   \<and> overall_score
        (calculate_ats_score [''Deployed Docker images to Kubernetes for 12 teams'']
           [] (Some []) (Some [''Docker'', ''Kubernetes''])) = 0
   \<and> suggestions
        (calculate_ats_score [''Deployed Docker images to Kubernetes for 12 teams'']
           [] (Some []) (Some [''Docker'', ''Kubernetes'']))
       = [''No job requirements provided for analysis'']"
  using calculate_ats_score_no_requirements
          [of "[]" "Some []" "[''Deployed Docker images to Kubernetes for 12 teams'']"
              "Some [''Docker'', ''Kubernetes'']"]
  by (simp add: not_list_def)

section \<open>RequirementExtractor: \<^verbatim>\<open>_extract_job_requirements\<close>\<close>

text \<open>
  The vocabulary tables of the module and of the service class. They are Python sets; the
  code tests membership in them and iterates over two of them, and every list built by such
  an iteration is deduplicated and sorted before it is returned, so the order of the lists
  below (the order of the source text) does not show in a result.
\<close>

definition STOPWORDS :: "string list" where
  "STOPWORDS =
    [''and'', ''the'', ''to'', ''of'', ''a'', ''for'', ''in'', ''on'', ''with'', ''an'',
     ''by'', ''is'', ''be'', ''as'', ''or'', ''at'', ''from'', ''into'', ''will'', ''that'']"

definition TECH_KEYWORDS :: "string list" where
  "TECH_KEYWORDS =
    [''python'', ''java'', ''javascript'', ''typescript'', ''c++'', ''c#'', ''ruby'',
     ''php'', ''swift'', ''kotlin'', ''go'', ''rust'', ''scala'', ''r'', ''matlab'',
     ''perl'', ''vb.net'', ''objective-c'', ''sql'', ''nosql'', ''mysql'', ''postgresql'',
     ''mongodb'', ''redis'', ''cassandra'', ''dynamodb'', ''oracle'', ''sqlserver'',
     ''mariadb'', ''sqlite'', ''elasticsearch'', ''neo4j'', ''couchdb'', ''aws'',
     ''azure'', ''gcp'', ''heroku'', ''digitalocean'', ''linode'', ''cloudflare'', ''s3'',
     ''ec2'', ''lambda'', ''cloudformation'', ''cloudwatch'', ''rds'', ''sagemaker'',
     ''react'', ''angular'', ''vue'', ''django'', ''flask'', ''fastapi'', ''spring'',
     ''express'', ''node.js'', ''nodejs'', ''.net'', ''asp.net'', ''rails'', ''laravel'',
     ''next.js'', ''gatsby'', ''docker'', ''kubernetes'', ''terraform'', ''ansible'',
     ''jenkins'', ''gitlab'', ''github'', ''ci/cd'', ''git'', ''linux'', ''unix'',
     ''bash'', ''powershell'', ''nginx'', ''apache'', ''spark'', ''hadoop'', ''kafka'',
     ''airflow'', ''databricks'', ''snowflake'', ''redshift'', ''tableau'', ''powerbi'',
     ''looker'', ''qlik'', ''pandas'', ''numpy'', ''scipy'', ''ml'', ''ai'',
     ''tensorflow'', ''pytorch'', ''scikit-learn'', ''keras'', ''transformers'', ''nlp'',
     ''computer vision'', ''deep learning'', ''machine learning'', ''data science'',
     ''agile'', ''scrum'', ''kanban'', ''waterfall'', ''devops'', ''tdd'', ''bdd'',
     ''pair programming'', ''salesforce'', ''sap'', ''oracle'', ''workday'',
     ''servicenow'', ''jira'', ''confluence'', ''slack'', ''microsoft teams'',
     ''sharepoint'', ''excel'', ''powerpoint'', ''api'', ''rest'', ''graphql'',
     ''microservices'', ''serverless'', ''etl'', ''data pipeline'', ''html'', ''css'',
     ''sass'', ''webpack'', ''babel'', ''typescript'', ''json'', ''xml'', ''yaml'',
     ''oauth'', ''jwt'', ''saml'', ''sso'', ''encryption'', ''security'', ''compliance'',
     ''gdpr'']"

definition ATS_ACTION_VERBS :: "string list" where
  "ATS_ACTION_VERBS =
    [''led'', ''managed'', ''directed'', ''supervised'', ''coordinated'', ''oversaw'',
     ''mentored'', ''coached'', ''trained'', ''guided'', ''delegated'', ''organized'',
     ''facilitated'', ''achieved'', ''improved'', ''increased'', ''decreased'',
     ''reduced'', ''accelerated'', ''optimized'', ''streamlined'', ''enhanced'',
     ''transformed'', ''exceeded'', ''delivered'', ''developed'', ''created'',
     ''designed'', ''built'', ''engineered'', ''architected'', ''established'',
     ''launched'', ''pioneered'', ''innovated'', ''invented'', ''spearheaded'',
     ''analyzed'', ''evaluated'', ''assessed'', ''identified'', ''researched'',
     ''investigated'', ''diagnosed'', ''forecasted'', ''strategized'', ''planned'',
     ''recommended'', ''collaborated'', ''partnered'', ''communicated'', ''presented'',
     ''negotiated'', ''influenced'', ''persuaded'', ''consulted'', ''advised'',
     ''facilitated'', ''implemented'', ''executed'', ''deployed'', ''integrated'',
     ''automated'', ''configured'', ''maintained'', ''operated'', ''administered'',
     ''monitored'', ''resolved'']"

definition SOFT_SKILLS :: "string list" where
  "SOFT_SKILLS =
    [''leadership'', ''communication'', ''teamwork'', ''problem-solving'',
     ''critical thinking'', ''analytical'', ''strategic thinking'', ''creativity'',
     ''adaptability'', ''time management'', ''project management'',
     ''stakeholder management'', ''cross-functional'', ''collaboration'', ''presentation'',
     ''negotiation'', ''decision-making'', ''conflict resolution'']"

definition CERTIFICATIONS :: "string list" where
  "CERTIFICATIONS =
    [''aws certified'', ''azure certified'', ''gcp certified'', ''pmp'', ''cissp'',
     ''cism'', ''comptia'', ''ccna'', ''ccnp'', ''ccie'', ''cka'', ''ckad'',
     ''certified scrum master'', ''csm'', ''pmi'', ''itil'', ''six sigma'', ''cfa'',
     ''cpa'', ''mba'', ''ph.d'', ''phd'']"


text \<open>
  \<^verbatim>\<open>str.strip()\<close>, \<^verbatim>\<open>str.strip(chars)\<close> and \<^verbatim>\<open>str.lstrip(chars)\<close>. The ASCII white space
  of Python: space, tab, line feed, vertical tab, form feed, carriage return and the four
  separators 0x1C to 0x1F.
\<close>

definition is_space :: "char \<Rightarrow> bool" where
  "is_space c =
     (c \<in> set [CHR '' '', CHR 0x09, CHR 0x0A, CHR 0x0B, CHR 0x0C, CHR 0x0D,
                CHR 0x1C, CHR 0x1D, CHR 0x1E, CHR 0x1F])"

definition strip_where :: "(char \<Rightarrow> bool) \<Rightarrow> string \<Rightarrow> string" where
  "strip_where P s = rev (dropWhile P (rev (dropWhile P s)))"

definition strip :: "string \<Rightarrow> string" where
  "strip s = strip_where is_space s"

definition strip_chars :: "string \<Rightarrow> string \<Rightarrow> string" where
  "strip_chars chars s = strip_where (\<lambda>c. c \<in> set chars) s"

definition lstrip_chars :: "string \<Rightarrow> string \<Rightarrow> string" where
  "lstrip_chars chars s = dropWhile (\<lambda>c. c \<in> set chars) s"

text \<open>
  \<^verbatim>\<open>str.splitlines()\<close> on ASCII text: a line ends at line feed, carriage return (with a
  following line feed taken as part of the same break), vertical tab, form feed or one of
  0x1C, 0x1D, 0x1E; a last line without a break is returned when it is not empty.
\<close>

definition is_linebreak :: "char \<Rightarrow> bool" where
  "is_linebreak c = (c \<in> set [CHR 0x0A, CHR 0x0B, CHR 0x0C, CHR 0x0D, CHR 0x1C, CHR 0x1D, CHR 0x1E])"

fun splitlines_from :: "string \<Rightarrow> string \<Rightarrow> string list" where
  "splitlines_from cur [] = (if cur = [] then [] else [rev cur])"
| "splitlines_from cur [c] = (if is_linebreak c then [rev cur] else [rev (c # cur)])"
| "splitlines_from cur (c # d # cs) =
     (if c = CHR 0x0D \<and> d = CHR 0x0A then rev cur # splitlines_from [] cs
      else if is_linebreak c then rev cur # splitlines_from [] (d # cs)
      else splitlines_from (c # cur) (d # cs))"

definition splitlines :: "string \<Rightarrow> string list" where
  "splitlines s = splitlines_from [] s"

text \<open>Character classes of ASCII text.\<close>

definition is_upper :: "char \<Rightarrow> bool" where
  "is_upper c = (c \<in> set ''ABCDEFGHIJKLMNOPQRSTUVWXYZ'')"

definition is_lower :: "char \<Rightarrow> bool" where
  "is_lower c = (c \<in> set ''abcdefghijklmnopqrstuvwxyz'')"

definition is_alpha :: "char \<Rightarrow> bool" where
  "is_alpha c = (is_upper c \<or> is_lower c)"

text \<open>The class \<^verbatim>\<open>[A-Za-z0-9\+#\./-]\<close> of the token pattern.\<close>

definition is_token_char :: "char \<Rightarrow> bool" where
  "is_token_char c = (is_alpha c \<or> is_digit c \<or> c \<in> set ''+#./-'')"

text \<open>
  \<^verbatim>\<open>re.findall(r"[A-Za-z][A-Za-z0-9\+#\./-]{1,}", text)\<close>: scanning from the left, a letter
  followed by at least one character of the class starts a token, which takes the longest
  run of class characters; the scan goes on after the token.
\<close>

function find_tokens :: "string \<Rightarrow> string list" where
  "find_tokens [] = []"
| "find_tokens (c # cs) =
     (if is_alpha c \<and> takeWhile is_token_char cs \<noteq> []
      then (c # takeWhile is_token_char cs) # find_tokens (dropWhile is_token_char cs)
      else find_tokens cs)"
  by pat_completeness auto
termination
  by (relation "measure length") (auto simp: length_dropWhile_le less_Suc_eq_le)

text \<open>\<^verbatim>\<open>str.istitle()\<close> and \<^verbatim>\<open>str.isupper()\<close> on ASCII text.\<close>

fun istitle_from :: "bool \<Rightarrow> bool \<Rightarrow> string \<Rightarrow> bool" where
  "istitle_from cased previous_is_cased [] = cased"
| "istitle_from cased previous_is_cased (c # cs) =
     (if is_upper c then (if previous_is_cased then False else istitle_from True True cs)
      else if is_lower c then (if \<not> previous_is_cased then False else istitle_from True True cs)
      else istitle_from cased False cs)"

definition istitle :: "string \<Rightarrow> bool" where
  "istitle s = istitle_from False False s"

definition isupper :: "string \<Rightarrow> bool" where
  "isupper s = (list_ex is_upper s \<and> \<not> list_ex is_lower s)"

text \<open>\<^verbatim>\<open>_extract_keywords\<close>.\<close>

definition keep_token :: "string \<Rightarrow> string option" where
  "keep_token token =
     (let token_clean = lower (strip_chars '' .,;:()[]{}'' token)
      in if length token_clean < 2 \<or> token_clean \<in> set STOPWORDS then None
         else if token_clean \<in> set TECH_KEYWORDS \<or> token_clean \<in> set ATS_ACTION_VERBS
                 \<or> token_clean \<in> set SOFT_SKILLS \<or> istitle token \<or> isupper token
         then Some token_clean
         else None)"

definition extract_keywords :: "string \<Rightarrow> string list" where
  "extract_keywords text =
     filter (\<lambda>cert. sublist cert (lower text)) CERTIFICATIONS
     @ List.map_filter keep_token (find_tokens text)"

text \<open>
  The requirements dict \<^verbatim>\<open>Dict[str, List[str]]\<close>, as an association list in the order in
  which the source creates its keys.
\<close>

type_synonym requirements = "(string \<times> string list) list"

definition empty_requirements :: requirements where
  "empty_requirements =
     [(''skills'', []), (''qualifications'', []), (''responsibilities'', []), (''keywords'', []),
      (''required_skills'', []), (''preferred_skills'', []), (''certifications'', []),
      (''action_verbs'', []), (''years_experience'', []), (''education'', [])]"

text \<open>\<^verbatim>\<open>requirements.get(key, [])\<close>.\<close>

definition req_get :: "requirements \<Rightarrow> string \<Rightarrow> string list" where
  "req_get reqs key = (case map_of reqs key of None \<Rightarrow> [] | Some xs \<Rightarrow> xs)"

text \<open>\<^verbatim>\<open>sorted(set(xs))\<close>; strings are ordered character by character.\<close>

definition sorted_set :: "string list \<Rightarrow> string list" where
  "sorted_set xs = sort (remdups xs)"

text \<open>
  The education pass. For each keyword found in the lowered text, the first line that
  contains it is added, stripped and without its leading bullet characters. The source strips
  \<^verbatim>\<open>"-*"\<close>, the space and two non-ASCII bullet characters; on ASCII text those are
  \<^verbatim>\<open>"-* "\<close>.
\<close>

definition education_keywords :: "string list" where
  "education_keywords =
     [''bachelor'', ''master'', ''phd'', ''ph.d'', ''mba'', ''degree'', ''b.s.'', ''m.s.'']"

definition education_lines :: "string \<Rightarrow> string list" where
  "education_lines job_description =
     concat (map (\<lambda>edu_kw.
                    if sublist edu_kw (lower job_description)
                    then (case filter (\<lambda>line. sublist edu_kw (lower line)) (splitlines job_description) of
                            [] \<Rightarrow> []
                          | line # _ \<Rightarrow> [lstrip_chars ''-* '' (strip line)])
                    else [])
                 education_keywords)"

text \<open>
  The variables of the line loop. \<^verbatim>\<open>skill_candidates\<close> is a Python set; it is the list of
  the elements added to it here and is deduplicated when it is sorted at the end.
\<close>

record extract_state =
  current_bucket :: string
  is_required_section :: bool
  is_preferred_section :: bool
  skill_candidates :: "string list"
  keyword_candidates :: "string list"
  st_qualifications :: "string list"
  st_responsibilities :: "string list"
  st_required_skills :: "string list"
  st_preferred_skills :: "string list"
  st_action_verbs :: "string list"

definition initial_extract_state :: extract_state where
  "initial_extract_state =
     \<lparr>current_bucket = ''responsibilities'', is_required_section = False,
      is_preferred_section = False, skill_candidates = [], keyword_candidates = [],
      st_qualifications = [], st_responsibilities = [], st_required_skills = [],
      st_preferred_skills = [], st_action_verbs = []\<rparr>"

text \<open>\<^verbatim>\<open>any(word in lowered for word in words)\<close>.\<close>

definition any_in :: "string list \<Rightarrow> string \<Rightarrow> bool" where
  "any_in words lowered = list_ex (\<lambda>word. sublist word lowered) words"

text \<open>One iteration of \<^verbatim>\<open>for raw_line in job_description.splitlines()\<close>.\<close>

definition extract_line :: "extract_state \<Rightarrow> string \<Rightarrow> extract_state" where
  "extract_line st raw_line =
     (let line = strip raw_line; lowered = lower line
      in if line = [] then st
         else if any_in [''responsibil'', ''duties'', ''you will''] lowered
         then st\<lparr>current_bucket := ''responsibilities'', is_required_section := False,
                 is_preferred_section := False\<rparr>
         else if any_in [''qualification'', ''requirements'', ''must have''] lowered
         then st\<lparr>current_bucket := ''qualifications'',
                 is_required_section := any_in [''required'', ''must''] lowered,
                 is_preferred_section := any_in [''preferred'', ''nice to have''] lowered\<rparr>
         else if any_in [''skill'', ''technolog'', ''tools'', ''proficienc''] lowered
         then st\<lparr>current_bucket := ''skills'',
                 is_required_section := any_in [''required'', ''must''] lowered,
                 is_preferred_section := any_in [''preferred'', ''nice to have'', ''bonus''] lowered\<rparr>
         else if any_in [''preferred'', ''nice to have'', ''bonus'', ''plus''] lowered
         then st\<lparr>is_preferred_section := True, is_required_section := False\<rparr>
         else
           (let bullet = lstrip_chars ''-* '' line;
                extracted_keywords = extract_keywords bullet;
                line_is_required = any_in [''required'', ''must'', ''essential''] lowered;
                line_is_preferred = any_in [''preferred'', ''nice to have'', ''bonus'', ''plus''] lowered
            in if current_bucket st = ''skills''
               then (let st1 = st\<lparr>skill_candidates := skill_candidates st @ extracted_keywords\<rparr>
                     in if line_is_required \<or> (is_required_section st \<and> \<not> is_preferred_section st)
                        then st1\<lparr>st_required_skills := st_required_skills st @ extracted_keywords\<rparr>
                        else if line_is_preferred \<or> is_preferred_section st
                        then st1\<lparr>st_preferred_skills := st_preferred_skills st @ extracted_keywords\<rparr>
                        else st1)
               else if current_bucket st = ''qualifications''
               then (let st1 = st\<lparr>st_qualifications := st_qualifications st @ [bullet],
                                    keyword_candidates := keyword_candidates st @ extracted_keywords\<rparr>
                     in if line_is_required \<or> is_required_section st
                        then st1\<lparr>st_required_skills := st_required_skills st @ extracted_keywords\<rparr>
                        else if line_is_preferred \<or> is_preferred_section st
                        then st1\<lparr>st_preferred_skills := st_preferred_skills st @ extracted_keywords\<rparr>
                        else st1)
               else st\<lparr>st_responsibilities := st_responsibilities st @ [bullet],
                       keyword_candidates := keyword_candidates st @ extracted_keywords,
                       st_action_verbs :=
                         st_action_verbs st @ filter (\<lambda>verb. sublist verb lowered) ATS_ACTION_VERBS\<rparr>))"

text \<open>
  \<^verbatim>\<open>_extract_job_requirements\<close>. The three \<^verbatim>\<open>exp_patterns\<close> are matched by Python's regular
  expression engine; \<open>find_years\<close> stands for it and gives, for the lowered text, the first
  groups of all matches of the three patterns in the order of the two nested loops.
  \<^verbatim>\<open>list(set(education))\<close> has no fixed order in Python; the order of first occurrence is
  taken here.
\<close>

definition extract_job_requirements :: "(string \<Rightarrow> string list) \<Rightarrow> string \<Rightarrow> requirements" where
  "extract_job_requirements find_years job_description =
     (if job_description = [] then empty_requirements
      else
        (let text_lower = lower job_description;
             years_experience = map (\<lambda>years. years @ ''+ years'') (find_years text_lower);
             education = education_lines job_description;
             st = foldl extract_line initial_extract_state (splitlines job_description);
             certifications = filter (\<lambda>cert. sublist cert text_lower) CERTIFICATIONS;
             skill_names = sorted_set (skill_candidates st)
         in [(''skills'', skill_names),
             (''qualifications'', st_qualifications st),
             (''responsibilities'', st_responsibilities st),
             (''keywords'', sorted_set (keyword_candidates st @ skill_names)),
             (''required_skills'', sorted_set (st_required_skills st)),
             (''preferred_skills'', sorted_set (st_preferred_skills st)),
             (''certifications'', sorted_set certifications),
             (''action_verbs'', sorted_set (st_action_verbs st)),
             (''years_experience'', sorted_set years_experience),
             (''education'', remdups education)]))"

text \<open>
  Claim C9. On the empty string the extraction returns (it is a total function: no
  exception) the requirements structure in which each of the ten fields is the empty list,
  and which has no other field.
\<close>

theorem extract_job_requirements_empty:
  "extract_job_requirements find_years [] =
     [(''skills'', []), (''qualifications'', []), (''responsibilities'', []), (''keywords'', []),
      (''required_skills'', []), (''preferred_skills'', []), (''certifications'', []),
      (''action_verbs'', []), (''years_experience'', []), (''education'', [])]"
  by (simp add: extract_job_requirements_def empty_requirements_def)

section \<open>ExperienceRanker: \<^verbatim>\<open>_score_snippet\<close> and the ranking of a bucket\<close>

text \<open>
  The dataclass \<^verbatim>\<open>JobProfile\<close>. The coordinates are the optional pair of the values under
  \<^verbatim>\<open>"lat"\<close> and \<^verbatim>\<open>"lon"\<close>.
\<close>

record JobProfile =
  source_url :: string
  description :: string
  requirements :: requirements
  requirement_buckets :: "(string \<times> string list) list"
  location_name :: string
  location_coordinates :: "(rat \<times> rat) option"

text \<open>
  \<^verbatim>\<open>_score_snippet\<close>. The four Python sets are sets here; \<^verbatim>\<open>len\<close> of an intersection is
  \<open>card\<close>. The score is a float built from small multiples of 0.5, which doubles hold
  exactly; it is a rational here.
\<close>

definition lowered_set :: "string list \<Rightarrow> string set" where
  "lowered_set xs = set (map lower xs)"

definition score_snippet :: "ExperienceSnippet \<Rightarrow> JobProfile \<Rightarrow> rat" where
  "score_snippet snippet job_profile =
     (let job_keywords = lowered_set (req_get (requirements job_profile) ''keywords'');
          required_skills = lowered_set (req_get (requirements job_profile) ''required_skills'');
          preferred_skills = lowered_set (req_get (requirements job_profile) ''preferred_skills'');
          snippet_skills = lowered_set (skills snippet);
          achievement_text = lower (join '' '' (achievements snippet))
      in 6 * of_nat (card (snippet_skills \<inter> required_skills))
         + 3 * of_nat (card (snippet_skills \<inter> preferred_skills))
         + (3 / 2) * of_nat (card (snippet_skills \<inter> job_keywords))
         + of_nat (card (Set.filter (\<lambda>kw. kw \<noteq> [] \<and> sublist kw achievement_text) job_keywords))
         + (if bucket snippet = ''Leadership'' then 2 else 0)
         + (if bucket snippet = ''Projects'' then 1 else 0)
         + (if source_current snippet then 3 / 2 else 0))"

text \<open>
  The slice \<^verbatim>\<open>xs[:k]\<close> of Python: the first \<open>k\<close> elements, or all but the last \<open>-k\<close> when
  \<open>k\<close> is negative.
\<close>

definition py_take :: "int \<Rightarrow> 'a list \<Rightarrow> 'a list" where
  "py_take k xs = (if 0 \<le> k then take (nat k) xs else take (length xs - nat (- k)) xs)"

text \<open>
  \<^verbatim>\<open>sorted(items, key=lambda pair: pair[0], reverse=True)\<close>. Python's sort is stable, also
  with \<^verbatim>\<open>reverse=True\<close>: pairs of equal score keep their order. \<open>sort_key\<close> is a stable
  insertion sort, ascending; it sorts by the negated score.
\<close>

definition sorted_items :: "(rat \<times> ExperienceSnippet) list \<Rightarrow> (rat \<times> ExperienceSnippet) list" where
  "sorted_items items = sort_key (\<lambda>pair. - fst pair) items"

text \<open>The body of the loop \<^verbatim>\<open>for bucket, items in snippet_candidates.items()\<close>.\<close>

definition top_items :: "int \<Rightarrow> (rat \<times> ExperienceSnippet) list \<Rightarrow> ExperienceSnippet list" where
  "top_items limit_per_bucket items = map snd (py_take limit_per_bucket (sorted_items items))"

text \<open>
  \<^verbatim>\<open>snippet_candidates.setdefault(snippet.bucket, []).append((score, snippet))\<close>: the pair
  goes to the end of the list of its bucket; a new bucket goes to the end of the dict.
\<close>

fun add_candidate ::
  "(string \<times> (rat \<times> ExperienceSnippet) list) list \<Rightarrow> string \<Rightarrow> rat \<times> ExperienceSnippet
   \<Rightarrow> (string \<times> (rat \<times> ExperienceSnippet) list) list"
where
  "add_candidate [] b pair = [(b, [pair])]"
| "add_candidate ((b', items) # rest) b pair =
     (if b' = b then (b', items @ [pair]) # rest else (b', items) # add_candidate rest b pair)"

text \<open>
  \<^verbatim>\<open>_collect_experience_snippets\<close>, from the snippets that \<^verbatim>\<open>_build_snippet_from_entry\<close>
  has built from the raw entries of the experience graph (in the order of the entries; an
  empty graph gives no snippet and the empty dict).
\<close>

definition snippet_candidates ::
  "JobProfile \<Rightarrow> ExperienceSnippet list \<Rightarrow> (string \<times> (rat \<times> ExperienceSnippet) list) list"
where
  "snippet_candidates job_profile snippets =
     foldl (\<lambda>candidates snippet.
              add_candidate candidates (bucket snippet) (score_snippet snippet job_profile, snippet))
           [] snippets"

definition collect_experience_snippets ::
  "JobProfile \<Rightarrow> int \<Rightarrow> ExperienceSnippet list \<Rightarrow> selected_snippets"
where
  "collect_experience_snippets job_profile limit_per_bucket snippets =
     List.map_filter
       (\<lambda>(b, items). if top_items limit_per_bucket items \<noteq> []
                      then Some (b, top_items limit_per_bucket items) else None)
       (snippet_candidates job_profile snippets)"

section \<open>Properties of the scoring and the ranking\<close>

lemma finite_lowered_set [simp]: "finite (lowered_set xs)"
  by (simp add: lowered_set_def)

lemma lowered_set_insert: "lowered_set (ys @ s # zs) = insert (lower s) (lowered_set (ys @ zs))"
  by (auto simp: lowered_set_def)

lemma card_inter_insert_in:
  assumes "finite S" "x \<in> R" "x \<notin> S"
  shows "card (insert x S \<inter> R) = card (S \<inter> R) + 1"
proof -
  have "insert x S \<inter> R = insert x (S \<inter> R)" using assms by auto
  moreover have "x \<notin> S \<inter> R" using assms by auto
  ultimately show ?thesis using assms by simp
qed

lemma card_inter_insert_mono:
  assumes "finite S"
  shows "card (S \<inter> P) \<le> card (insert x S \<inter> P)"
  by (rule card_mono) (use assms in auto)

text \<open>One more skill that meets the required set is worth at least 6 points.\<close>

lemma score_extra_skill:
  assumes A: "skills A = ys @ zs"
      and B: "B = A\<lparr>skills := ys @ s # zs\<rparr>"
      and req: "lower s \<in> lowered_set (req_get (requirements jp) ''required_skills'')"
      and new: "lower s \<notin> lowered_set (skills A)"
  shows "score_snippet A jp + 6 \<le> score_snippet B jp"
proof -
  let ?S = "lowered_set (skills A)"
  have SB: "lowered_set (skills B) = insert (lower s) ?S"
    using A B by (simp add: lowered_set_insert)
  have r: "card (insert (lower s) ?S \<inter> lowered_set (req_get (requirements jp) ''required_skills''))
          = card (?S \<inter> lowered_set (req_get (requirements jp) ''required_skills'')) + 1"
    by (rule card_inter_insert_in) (use req new in auto)
  have p: "card (?S \<inter> P) \<le> card (insert (lower s) ?S \<inter> P)" for P
    by (rule card_inter_insert_mono) simp
  have p1: "(of_nat (card (?S \<inter> P)) :: rat) \<le> of_nat (card (insert (lower s) ?S \<inter> P))" for P
    using p[of P] by simp
  show ?thesis
    using p1[of "lowered_set (req_get (requirements jp) ''preferred_skills'')"]
          p1[of "lowered_set (req_get (requirements jp) ''keywords'')"]
    unfolding score_snippet_def Let_def SB r
    by (simp add: B)
qed

lemma sorted_items_stable:
  "filter (\<lambda>pair. fst pair = k) (sorted_items items) = filter (\<lambda>pair. fst pair = k) items"
  using sort_key_stable[of "\<lambda>pair. - fst pair" "- k" items]
  by (simp add: sorted_items_def)

lemma sorted_items_desc:
  assumes "i \<le> j" "j < length (sorted_items items)"
  shows "fst (sorted_items items ! j) \<le> fst (sorted_items items ! i)"
proof -
  have "sorted (map (\<lambda>pair. - fst pair) (sorted_items items))"
    by (simp add: sorted_items_def)
  then have "map (\<lambda>pair. - fst pair) (sorted_items items) ! i
             \<le> map (\<lambda>pair. - fst pair) (sorted_items items) ! j"
    using assms by (simp add: sorted_iff_nth_mono)
  then show ?thesis using assms by simp
qed

lemma py_take_is_take: "\<exists>n. py_take k xs = take n xs"
  by (auto simp: py_take_def)

lemma set_sorted_items [simp]: "set (sorted_items items) = set items"
  by (simp add: sorted_items_def)

text \<open>In the list kept for a bucket, a snippet of higher score stands before one of lower score.\<close>

lemma top_items_order:
  assumes scored: "\<forall>pair \<in> set items. fst pair = f (snd pair)"
      and lt: "f a < f b"
      and i: "i < length (top_items k items)" "top_items k items ! i = a"
      and j: "j < length (top_items k items)" "top_items k items ! j = b"
  shows "j < i"
proof (rule ccontr)
  assume "\<not> j < i"
  then have ij: "i \<le> j" by simp
  obtain n where n: "py_take k (sorted_items items) = take n (sorted_items items)"
    using py_take_is_take by blast
  let ?s = "sorted_items items"
  have len: "length (top_items k items) = length (take n ?s)"
    by (simp add: top_items_def n)
  have jn: "j < length ?s" "j < n" using j len by auto
  have inn: "i < length ?s" "i < n" using i len by auto
  have a: "snd (?s ! i) = a" using i inn by (simp add: top_items_def n)
  have b: "snd (?s ! j) = b" using j jn by (simp add: top_items_def n)
  have "?s ! i \<in> set items" "?s ! j \<in> set items"
    using inn jn by (metis nth_mem set_sorted_items)+
  then have "fst (?s ! i) = f a" "fst (?s ! j) = f b"
    using scored a b by auto
  moreover have "fst (?s ! j) \<le> fst (?s ! i)"
    using sorted_items_desc[OF ij jn(1)] .
  ultimately show False using lt by simp
qed

lemma map_of_add_candidate:
  "map_of (add_candidate c b p) b' =
     (if b' = b then Some ((case map_of c b of None \<Rightarrow> [] | Some xs \<Rightarrow> xs) @ [p]) else map_of c b')"
  by (induction c b p rule: add_candidate.induct) auto

lemma keys_add_candidate:
  "set (map fst (add_candidate c b p)) = insert b (set (map fst c))"
  by (induction c b p rule: add_candidate.induct) auto

lemma distinct_add_candidate:
  "distinct (map fst c) \<Longrightarrow> distinct (map fst (add_candidate c b p))"
proof (induction c b p rule: add_candidate.induct)
  case (1 b pair) then show ?case by simp
next
  case (2 b' items rest b pair)
  then show ?case using keys_add_candidate[of rest b pair] by auto
qed

lemma snippet_candidates_snoc:
  "snippet_candidates jp (xs @ [x]) = add_candidate (snippet_candidates jp xs) (bucket x) (score_snippet x jp, x)"
  by (simp add: snippet_candidates_def)

lemma distinct_snippet_candidates: "distinct (map fst (snippet_candidates jp xs))"
proof (induction xs rule: rev_induct)
  case Nil show ?case by (simp add: snippet_candidates_def)
next
  case (snoc x xs) then show ?case by (simp add: snippet_candidates_snoc distinct_add_candidate)
qed

lemma map_of_snippet_candidates:
  "map_of (snippet_candidates jp xs) b =
     (if \<exists>s \<in> set xs. bucket s = b
      then Some (map (\<lambda>s. (score_snippet s jp, s)) (filter (\<lambda>s. bucket s = b) xs))
      else None)"
proof (induction xs arbitrary: b rule: rev_induct)
  case Nil show ?case by (simp add: snippet_candidates_def)
next
  case (snoc x xs)
  show ?case
    by (auto simp: snippet_candidates_snoc map_of_add_candidate snoc.IH)
qed

lemma map_of_map_filter_keep:
  assumes "distinct (map fst c)"
  shows "map_of (List.map_filter (\<lambda>(b, items). if g items \<noteq> [] then Some (b, g items) else None) c) b
         = (case map_of c b of None \<Rightarrow> None | Some items \<Rightarrow> if g items \<noteq> [] then Some (g items) else None)"
  using assms
proof (induction c)
  case Nil show ?case by simp
next
  case (Cons a c)
  obtain b' items where a: "a = (b', items)" by (cases a)
  have notin: "b' \<notin> fst ` set c" using Cons.prems a by auto
  have droplater: "map_of (List.map_filter (\<lambda>(b, items). if g items \<noteq> [] then Some (b, g items) else None) c) b' = None"
    using Cons.IH[of ] Cons.prems a notin
    by (auto simp: map_of_eq_None_iff List.map_filter_def image_iff split: if_splits prod.splits)
  show ?case using Cons a droplater notin
    by (auto simp: map_of_eq_None_iff split: option.splits)
qed

lemma collect_lookup:
  assumes "map_of (collect_experience_snippets jp k snippets) b = Some ranked"
  shows "ranked = top_items k (map (\<lambda>s. (score_snippet s jp, s)) (filter (\<lambda>s. bucket s = b) snippets))"
  using assms
  unfolding collect_experience_snippets_def
  by (auto simp: map_of_map_filter_keep[OF distinct_snippet_candidates] map_of_snippet_candidates split: if_splits option.splits)


text \<open>Snippets of one score keep their encounter order in the list kept for a bucket.\<close>

lemma top_items_ties:
  assumes scored: "\<forall>pair \<in> set items. fst pair = f (snd pair)"
  shows "prefix (filter (\<lambda>x. f x = c) (top_items k items)) (filter (\<lambda>x. f x = c) (map snd items))"
proof -
  obtain n where n: "py_take k (sorted_items items) = take n (sorted_items items)"
    using py_take_is_take by blast
  let ?s = "sorted_items items"
  have same: "filter (\<lambda>pair. f (snd pair) = c) xs = filter (\<lambda>pair. fst pair = c) xs"
    if "set xs \<subseteq> set items" for xs
  proof (rule filter_cong[OF refl])
    fix pair assume "pair \<in> set xs"
    then have "pair \<in> set items" using that by blast
    then have "fst pair = f (snd pair)" using scored by blast
    then show "(f (snd pair) = c) = (fst pair = c)" by simp
  qed
  have "prefix (filter (\<lambda>pair. f (snd pair) = c) (take n ?s)) (filter (\<lambda>pair. f (snd pair) = c) ?s)"
    by (rule filter_mono_prefix) (simp add: take_is_prefix)
  also have "filter (\<lambda>pair. f (snd pair) = c) ?s = filter (\<lambda>pair. fst pair = c) ?s"
    by (rule same) simp
  also have "\<dots> = filter (\<lambda>pair. fst pair = c) items"
    by (rule sorted_items_stable)
  also have "\<dots> = filter (\<lambda>pair. f (snd pair) = c) items"
    by (rule same[symmetric]) simp
  finally have "prefix (map snd (filter (\<lambda>pair. f (snd pair) = c) (take n ?s)))
                       (map snd (filter (\<lambda>pair. f (snd pair) = c) items))"
    by (rule map_mono_prefix)
  then show ?thesis
    by (simp add: top_items_def n filter_map comp_def)
qed

text \<open>
  Claim C7. Let snippet \<open>B\<close> be snippet \<open>A\<close> with one more skill \<open>s\<close> (at any place of the
  skill list), where \<open>s\<close>, lowered, is a required skill of the job profile and is not among
  the lowered skills of \<open>A\<close>. Then \<open>B\<close> scores strictly higher than \<open>A\<close>; in the list that
  \<^verbatim>\<open>_collect_experience_snippets\<close> keeps for any bucket, every occurrence of \<open>B\<close> stands before
  every occurrence of \<open>A\<close>; and the snippets of one score stand in that list in the order in
  which they were encountered (the list holds a prefix of them, because of the cut to the
  top K).
\<close>

theorem score_snippet_extra_required_skill:
  assumes A: "skills A = ys @ zs"
      and B: "B = A\<lparr>skills := ys @ s # zs\<rparr>"
      and req: "lower s \<in> lowered_set (req_get (requirements jp) ''required_skills'')"
      and new: "lower s \<notin> lowered_set (skills A)"
  shows "score_snippet A jp < score_snippet B jp
       \<and> (\<forall>b ranked.
            map_of (collect_experience_snippets jp limit_per_bucket snippets) b = Some ranked \<longrightarrow>
              (\<forall>i j. i < length ranked \<and> j < length ranked \<and> ranked ! i = A \<and> ranked ! j = B
                      \<longrightarrow> j < i)
              \<and> (\<forall>c. prefix (filter (\<lambda>x. score_snippet x jp = c) ranked)
                             (filter (\<lambda>x. score_snippet x jp = c)
                                     (filter (\<lambda>x. bucket x = b) snippets))))"
proof -
  have lt: "score_snippet A jp < score_snippet B jp"
    using score_extra_skill[OF A B req new] by simp
  have rest: "(\<forall>i j. i < length ranked \<and> j < length ranked \<and> ranked ! i = A \<and> ranked ! j = B
                      \<longrightarrow> j < i)
              \<and> (\<forall>c. prefix (filter (\<lambda>x. score_snippet x jp = c) ranked)
                             (filter (\<lambda>x. score_snippet x jp = c)
                                     (filter (\<lambda>x. bucket x = b) snippets)))"
    if look: "map_of (collect_experience_snippets jp limit_per_bucket snippets) b = Some ranked"
    for b ranked
  proof -
    let ?items = "map (\<lambda>x. (score_snippet x jp, x)) (filter (\<lambda>x. bucket x = b) snippets)"
    have ranked: "ranked = top_items limit_per_bucket ?items"
      using collect_lookup[OF look] .
    have scored: "\<forall>pair \<in> set ?items. fst pair = score_snippet (snd pair) jp"
      by auto
    have order: "j < i"
      if "i < length ranked" "j < length ranked" "ranked ! i = A" "ranked ! j = B" for i j
      using top_items_order[OF scored lt, of i limit_per_bucket j] that ranked by simp
    have ties: "prefix (filter (\<lambda>x. score_snippet x jp = c) ranked)
                       (filter (\<lambda>x. score_snippet x jp = c) (filter (\<lambda>x. bucket x = b) snippets))"
      for c
      using top_items_ties[OF scored, of c limit_per_bucket] ranked
      by (simp add: comp_def)
    show ?thesis using order ties by blast
  qed
  show ?thesis using lt rest by blast
qed

definition job_profile_example :: JobProfile where
  "job_profile_example =
     \<lparr>source_url = '''', description = ''Backend engineer'',
      requirements = [(''keywords'', [''python'', ''sql'']),
                      (''required_skills'', [''Python'', ''SQL'']),
                      (''preferred_skills'', [''Docker''])],
      requirement_buckets = [], location_name = '''', location_coordinates = None\<rparr>"

theorem score_snippet_extra_required_skill_witness:
  "skills (snippet_example ''s1'' ''Projects'') = [''Python''] @ []
   \<and> lower ''SQL'' \<in> lowered_set (req_get (requirements job_profile_example) ''required_skills'')
   \<and> lower ''SQL'' \<notin> lowered_set (skills (snippet_example ''s1'' ''Projects''))
   \<and> map_of (collect_experience_snippets job_profile_example 3
               [snippet_example ''s1'' ''Projects'',
                (snippet_example ''s1'' ''Projects'')\<lparr>skills := [''Python''] @ ''SQL'' # []\<rparr>])
         ''Projects''
       = Some [(snippet_example ''s1'' ''Projects'')\<lparr>skills := [''Python''] @ ''SQL'' # []\<rparr>,
               snippet_example ''s1'' ''Projects'']
   \<and> score_snippet (snippet_example ''s1'' ''Projects'') job_profile_example
       < score_snippet ((snippet_example ''s1'' ''Projects'')\<lparr>skills := [''Python''] @ ''SQL'' # []\<rparr>)
           job_profile_example"
proof -
  let ?A = "snippet_example ''s1'' ''Projects''"
  let ?B = "?A\<lparr>skills := [''Python''] @ ''SQL'' # []\<rparr>"
  have h1: "skills ?A = [''Python''] @ []"
    by (simp add: snippet_example_def)
  have h2: "?B = ?A\<lparr>skills := [''Python''] @ ''SQL'' # []\<rparr>"
    by (rule refl)
  have h3: "lower ''SQL'' \<in> lowered_set (req_get (requirements job_profile_example) ''required_skills'')"
    by code_simp
  have h4: "lower ''SQL'' \<notin> lowered_set (skills ?A)"
    by code_simp
  have h5: "map_of (collect_experience_snippets job_profile_example 3 [?A, ?B]) ''Projects''
            = Some [?B, ?A]"
    by code_simp
  have lt: "score_snippet ?A job_profile_example < score_snippet ?B job_profile_example"
    using score_snippet_extra_required_skill[OF h1 h2 h3 h4] by (rule conjunct1)
  show ?thesis
    by (intro conjI) (rule h1 h3 h4 h5 lt)+
qed

section \<open>Python values and the generation collaborator\<close>

text \<open>
  The values of the JSON payloads exchanged with the collaborator and of the parameter dict:
  \<^verbatim>\<open>None\<close>, booleans, integers, floats, strings, lists and dicts with string keys (in
  insertion order). A finite double is a rational number, and floats are modelled as
  rationals; NaN and the infinities are left out.
\<close>

datatype pyval =
    PNone
  | PBool bool
  | PInt int
  | PFloat rat
  | PStr string
  | PList "pyval list"
  | PDict "(string \<times> pyval) list"

text \<open>The exceptions that the modelled code can meet.\<close>

datatype exn =
    TailoringPipelineError string
  | TypeError
  | ValueError
  | OverflowError
  | AttributeError

text \<open>
  The conversions of Python whose result depends on the parsing and printing of numbers are
  parameters of the model: \<^verbatim>\<open>str(x)\<close> for a float, a list or a dict, \<^verbatim>\<open>int(s)\<close> and
  \<^verbatim>\<open>float(s)\<close> for a string (\<open>None\<close> is \<^verbatim>\<open>ValueError\<close>), and \<^verbatim>\<open>float(i)\<close> for an
  integer (rounding; \<open>None\<close> is \<^verbatim>\<open>OverflowError\<close>).
\<close>

record builtins =
  str_other :: "pyval \<Rightarrow> string"
  int_of_str :: "string \<Rightarrow> int option"
  float_of_str :: "string \<Rightarrow> rat option"
  float_of_int :: "int \<Rightarrow> rat option"

text \<open>Decimal digits of a natural number and of an integer (\<^verbatim>\<open>str(i)\<close>).\<close>

definition digit_char :: "nat \<Rightarrow> char" where
  "digit_char d = ''0123456789'' ! d"

function show_nat :: "nat \<Rightarrow> string" where
  "show_nat n = (if n < 10 then [digit_char n] else show_nat (n div 10) @ [digit_char (n mod 10)])"
  by pat_completeness auto
termination
  by (relation "measure id") auto

definition show_int :: "int \<Rightarrow> string" where
  "show_int i = (if i < 0 then CHR ''-'' # show_nat (nat (- i)) else show_nat (nat i))"

text \<open>\<^verbatim>\<open>str(x)\<close>, \<^verbatim>\<open>int(x)\<close>, \<^verbatim>\<open>float(x)\<close> and \<^verbatim>\<open>bool(x)\<close>.\<close>

definition py_str :: "builtins \<Rightarrow> pyval \<Rightarrow> string" where
  "py_str env v =
     (case v of
        PStr s \<Rightarrow> s
      | PNone \<Rightarrow> ''None''
      | PBool b \<Rightarrow> (if b then ''True'' else ''False'')
      | PInt i \<Rightarrow> show_int i
      | _ \<Rightarrow> str_other env v)"

definition truncate_rat :: "rat \<Rightarrow> int" where
  "truncate_rat f = (if 0 \<le> f then \<lfloor>f\<rfloor> else \<lceil>f\<rceil>)"

definition py_int :: "builtins \<Rightarrow> pyval \<Rightarrow> exn + int" where
  "py_int env v =
     (case v of
        PInt i \<Rightarrow> Inr i
      | PBool b \<Rightarrow> Inr (if b then 1 else 0)
      | PFloat f \<Rightarrow> Inr (truncate_rat f)
      | PStr s \<Rightarrow> (case int_of_str env s of None \<Rightarrow> Inl ValueError | Some i \<Rightarrow> Inr i)
      | _ \<Rightarrow> Inl TypeError)"

definition py_float :: "builtins \<Rightarrow> pyval \<Rightarrow> exn + rat" where
  "py_float env v =
     (case v of
        PFloat f \<Rightarrow> Inr f
      | PInt i \<Rightarrow> (case float_of_int env i of None \<Rightarrow> Inl OverflowError | Some f \<Rightarrow> Inr f)
      | PBool b \<Rightarrow> Inr (if b then 1 else 0)
      | PStr s \<Rightarrow> (case float_of_str env s of None \<Rightarrow> Inl ValueError | Some f \<Rightarrow> Inr f)
      | _ \<Rightarrow> Inl TypeError)"

definition py_bool :: "pyval \<Rightarrow> bool" where
  "py_bool v =
     (case v of
        PNone \<Rightarrow> False
      | PBool b \<Rightarrow> b
      | PInt i \<Rightarrow> i \<noteq> 0
      | PFloat f \<Rightarrow> f \<noteq> 0
      | PStr s \<Rightarrow> s \<noteq> []
      | PList xs \<Rightarrow> xs \<noteq> []
      | PDict kvs \<Rightarrow> kvs \<noteq> [])"






section \<open>GenerationOrchestrator: sections, bullet details and the backfill\<close>

text \<open>A section of the result: the dict \<^verbatim>\<open>{"name": ..., "bullets": [...]}\<close>.\<close>

record resume_section =
  section_name :: string
  bullets :: "string list"

text \<open>
  A bullet detail: the dict with the keys \<^verbatim>\<open>id\<close>, \<^verbatim>\<open>snippet_id\<close>, \<^verbatim>\<open>text\<close>, \<^verbatim>\<open>stretch\<close>,
  \<^verbatim>\<open>section\<close>, \<^verbatim>\<open>section_index\<close>, \<^verbatim>\<open>bullet_index\<close> and \<^verbatim>\<open>metrics\<close>. The keys \<^verbatim>\<open>section\<close>,
  \<^verbatim>\<open>section_index\<close> and \<^verbatim>\<open>metrics\<close> are absent from some details (\<open>None\<close>).
\<close>

record bullet_detail =
  bullet_id :: string
  bullet_snippet_id :: string
  bullet_text :: string
  stretch :: int
  bullet_section :: "string option"
  section_index :: "nat option"
  bullet_index :: nat
  metrics :: "pyval option"














text \<open>
  \<^verbatim>\<open>existing_sections = {s.get("name", ""): s for s in sections}\<close> maps a name to the last
  section of that name. The dict holds the section objects themselves, which the loop below
  extends in place; the model keeps the position of that section in the list.
\<close>

fun existing_index :: "resume_section list \<Rightarrow> string \<Rightarrow> nat option" where
  "existing_index [] n = None"
| "existing_index (s # rest) n =
     (case existing_index rest n of
        Some i \<Rightarrow> Some (Suc i)
      | None \<Rightarrow> if section_name s = n then Some 0 else None)"











section \<open>Properties of the backfill\<close>




lemma existing_index_None: "existing_index S n = None \<longleftrightarrow> n \<notin> section_name ` set S"
  by (induction S) (auto split: option.splits)



















definition builtins_example :: builtins where
  "builtins_example =
     \<lparr>str_other = (\<lambda>v. ''?''), int_of_str = (\<lambda>s. None), float_of_str = (\<lambda>s. None),
      float_of_int = (\<lambda>i. Some (of_int i))\<rparr>"





section \<open>GuardrailValidator: \<^verbatim>\<open>_apply_guardrails\<close>, \<^verbatim>\<open>_regenerate_bullets\<close> and the replacement step\<close>






text \<open>\<^verbatim>\<open>x or []\<close>, and \<^verbatim>\<open>d.get(key)\<close> of a dict given by its items.\<close>

definition or_empty_list :: "pyval \<Rightarrow> pyval" where
  "or_empty_list v = (if py_bool v then v else PList [])"






















section \<open>Properties of the guardrail step\<close>


































section \<open>Parameter normalization: \<^verbatim>\<open>normalize_parameters\<close>\<close>

text \<open>
  The parameter dict \<^verbatim>\<open>Dict[str, object]\<close> is a map from keys to values; equality of maps is
  the equality of Python dicts, which does not look at the order of the keys.
\<close>

type_synonym parameters = "string \<Rightarrow> pyval option"

definition default_sections :: "string list" where
  "default_sections = [''Professional Experience'', ''Leadership'', ''Projects'']"

definition DEFAULT_PARAMETERS :: "(string \<times> pyval) list" where
  "DEFAULT_PARAMETERS =
     [(''sections'', PList (map PStr default_sections)),
      (''bullets_per_section'', PInt 3),
      (''tone'', PStr ''confident and metric-driven''),
      (''include_summary'', PBool True),
      (''include_cover_letter'', PBool False),
      (''temperature'', PFloat (35 / 100)),
      (''max_output_tokens'', PInt 3500),
      (''stretch_level'', PInt 2),
      (''section_layout'', PList (map PStr default_sections)),
      (''cover_letter_inserts'', PList [])]"

text \<open>\<^verbatim>\<open>merged.get(key, default)\<close>.\<close>

definition value_or :: "pyval option \<Rightarrow> pyval \<Rightarrow> pyval" where
  "value_or v dflt = (case v of None \<Rightarrow> dflt | Some x \<Rightarrow> x)"

text \<open>
  \<^verbatim>\<open>re.split(r"[\n,]+", s)\<close>: the pieces between the runs of commas and line feeds. A run at
  the start or at the end of the string gives an empty first or last piece; no other piece is
  empty.
\<close>

fun split_at_separators :: "string \<Rightarrow> string \<Rightarrow> string list" where
  "split_at_separators cur [] = [rev cur]"
| "split_at_separators cur (c # cs) =
     (if c = CHR 0x0A \<or> c = CHR '',''
      then rev cur # split_at_separators [] cs
      else split_at_separators (c # cur) cs)"

definition re_split :: "string \<Rightarrow> string list" where
  "re_split s =
     (case split_at_separators [] s of
        [] \<Rightarrow> []
      | [piece] \<Rightarrow> [piece]
      | piece # rest \<Rightarrow> piece # filter (\<lambda>x. x \<noteq> []) (butlast rest) @ [last rest])"

text \<open>
  The list comprehensions \<^verbatim>\<open>[x.strip() for x in pieces if x.strip()]\<close> and
  \<^verbatim>\<open>[str(x).strip() for x in values if str(x).strip()]\<close>.
\<close>

definition stripped_nonempty :: "string list \<Rightarrow> string list" where
  "stripped_nonempty pieces = filter (\<lambda>x. x \<noteq> []) (map strip pieces)"

text \<open>
  The three-way branch on the type of a list-valued parameter: a string is split, an
  iterable (a list, or a dict, which iterates over its keys) is read element by element,
  anything else gives the fallback.
\<close>

definition names_of :: "builtins \<Rightarrow> pyval \<Rightarrow> string list \<Rightarrow> string list" where
  "names_of env v fallback =
     (case v of
        PStr s \<Rightarrow> stripped_nonempty (re_split s)
      | PList xs \<Rightarrow> stripped_nonempty (map (py_str env) xs)
      | PDict kvs \<Rightarrow> stripped_nonempty (map fst kvs)
      | _ \<Rightarrow> fallback)"

text \<open>\<^verbatim>\<open>xs or default\<close> for a list.\<close>

definition list_or :: "string list \<Rightarrow> string list \<Rightarrow> string list" where
  "list_or xs dflt = (if xs = [] then dflt else xs)"

text \<open>The exceptions of the handlers \<^verbatim>\<open>except (TypeError, ValueError)\<close>.\<close>

definition caught :: "exn \<Rightarrow> bool" where
  "caught e = (e = TypeError \<or> e = ValueError)"

text \<open>\<^verbatim>\<open>int(value)\<close> inside such a handler; \<open>py_int\<close> raises nothing else.\<close>

definition int_or :: "builtins \<Rightarrow> pyval \<Rightarrow> int \<Rightarrow> int" where
  "int_or env v dflt = (case py_int env v of Inr i \<Rightarrow> i | Inl e \<Rightarrow> dflt)"

text \<open>The token floor that depends on the number of sections and of bullets per section.\<close>

definition min_tokens_for :: "int \<Rightarrow> nat \<Rightarrow> int" where
  "min_tokens_for bullets_per_section num_sections =
     (let m0 = 2500;
          m1 = (if bullets_per_section \<ge> 5 then max m0 3000 else m0);
          m2 = (if num_sections \<ge> 3 \<and> bullets_per_section \<ge> 4 then max m1 3500 else m1)
      in max m2 1000)"

definition clamp_tokens :: "int \<Rightarrow> int \<Rightarrow> int" where
  "clamp_tokens min_tokens tokens =
     (let t1 = (if tokens < min_tokens then min_tokens else tokens)
      in if t1 > 6500 then 6500 else t1)"

text \<open>
  \<^verbatim>\<open>normalize_parameters\<close>, in the order of the source. Each value is computed from the merged
  dict and written back under its key; where the source reads back a value it has just
  written (the sections, the bullets per section, the layout, the token budget), the model
  uses the value itself. The only exception that can leave the function is the
  \<^verbatim>\<open>OverflowError\<close> of \<^verbatim>\<open>float(...)\<close> on an integer too large for a double, which the
  handler of the temperature does not catch.
\<close>

definition normalize_parameters :: "builtins \<Rightarrow> parameters \<Rightarrow> exn + parameters" where
  "normalize_parameters env params =
     (let merged = map_of DEFAULT_PARAMETERS ++ params;
          sections = list_or (names_of env (value_or (merged ''sections'') PNone) default_sections)
                       default_sections;
          bullets_per_section =
            (case py_int env (value_or (merged ''bullets_per_section'') (PInt 3)) of
               Inr i \<Rightarrow> max 1 i
             | Inl e \<Rightarrow> 3);
          temperature = py_float env (value_or (merged ''temperature'') (PFloat (35 / 100)));
          max_output_tokens = int_or env (value_or (merged ''max_output_tokens'') (PInt 3500)) 3500;
          tone0 = strip (py_str env (value_or (merged ''tone'') (PStr ''confident and metric-driven'')));
          tone = (if tone0 = [] then ''confident and metric-driven'' else tone0);
          include_summary = py_bool (value_or (merged ''include_summary'') (PBool True));
          include_cover_letter = py_bool (value_or (merged ''include_cover_letter'') (PBool False));
          stretch_raw = int_or env (value_or (merged ''stretch_level'') (PInt 2)) 2;
          stretch_level = max 0 (min 3 stretch_raw);
          layout0 = list_or (names_of env (value_or (merged ''section_layout'') PNone) default_sections)
                      default_sections;
          layout = (if params ''sections'' \<noteq> None \<and> sections \<noteq> [] then sections else layout0);
          inserts = names_of env (or_empty_list (value_or (merged ''cover_letter_inserts'') PNone)) [];
          num_sections = (if length sections \<noteq> 0 then length sections else length layout);
          tokens = clamp_tokens (min_tokens_for bullets_per_section num_sections) max_output_tokens
      in case temperature of
           Inl e \<Rightarrow>
             (if caught e
              then Inr (merged(''sections'' \<mapsto> PList (map PStr sections),
                               ''bullets_per_section'' \<mapsto> PInt bullets_per_section,
                               ''temperature'' \<mapsto> PFloat (35 / 100),
                               ''max_output_tokens'' \<mapsto> PInt tokens,
                               ''tone'' \<mapsto> PStr tone,
                               ''include_summary'' \<mapsto> PBool include_summary,
                               ''include_cover_letter'' \<mapsto> PBool include_cover_letter,
                               ''stretch_level'' \<mapsto> PInt stretch_level,
                               ''section_layout'' \<mapsto> PList (map PStr layout),
                               ''cover_letter_inserts'' \<mapsto> PList (map PStr inserts)))
              else Inl e)
         | Inr t \<Rightarrow>
             Inr (merged(''sections'' \<mapsto> PList (map PStr sections),
                         ''bullets_per_section'' \<mapsto> PInt bullets_per_section,
                         ''temperature'' \<mapsto> PFloat t,
                         ''max_output_tokens'' \<mapsto> PInt tokens,
                         ''tone'' \<mapsto> PStr tone,
                         ''include_summary'' \<mapsto> PBool include_summary,
                         ''include_cover_letter'' \<mapsto> PBool include_cover_letter,
                         ''stretch_level'' \<mapsto> PInt stretch_level,
                         ''section_layout'' \<mapsto> PList (map PStr layout),
                         ''cover_letter_inserts'' \<mapsto> PList (map PStr inserts))))"

section \<open>Properties of the parameter normalization\<close>

text \<open>\<^verbatim>\<open>normalize_parameters(normalize_parameters(p))\<close>; an exception of the inner call leaves both.\<close>

definition normalize_twice :: "builtins \<Rightarrow> parameters \<Rightarrow> exn + parameters" where
  "normalize_twice env params =
     (case normalize_parameters env params of
        Inl e \<Rightarrow> Inl e
      | Inr normalized \<Rightarrow> normalize_parameters env normalized)"

text \<open>The value under a key of a returned dict (\<open>None\<close> also when the call has raised).\<close>

definition param_of :: "exn + parameters \<Rightarrow> string \<Rightarrow> pyval option" where
  "param_of r key = (case r of Inl e \<Rightarrow> None | Inr m \<Rightarrow> m key)"

lemma strip_where_fixed:
  assumes "s \<noteq> [] \<longrightarrow> \<not> P (hd s) \<and> \<not> P (last s)"
  shows "strip_where P s = s"
proof (cases s)
  case Nil then show ?thesis by (simp add: strip_where_def)
next
  case (Cons c cs)
  then have h: "\<not> P (hd s)" and l: "\<not> P (last s)" using assms by auto
  have d1: "dropWhile P s = s" using h by (simp add: dropWhile_eq_self_iff)
  have "hd (rev s) = last s" using Cons by (simp add: hd_rev)
  then have d2: "dropWhile P (rev s) = rev s"
    using l by (simp add: dropWhile_eq_self_iff)
  show ?thesis by (simp add: strip_where_def d1 d2)
qed

lemma strip_where_ends:
  assumes "strip_where P s \<noteq> []"
  shows "\<not> P (hd (strip_where P s)) \<and> \<not> P (last (strip_where P s))"
proof -
  let ?a = "dropWhile P s"
  let ?b = "dropWhile P (rev ?a)"
  have b: "?b \<noteq> []" using assms by (simp add: strip_where_def)
  then have hb: "\<not> P (hd ?b)" by (simp add: hd_dropWhile)
  have a: "?a \<noteq> []"
  proof
    assume e: "?a = []"
    have "?b = []" by (simp only: e rev.simps dropWhile.simps)
    with b show False by simp
  qed
  then have ha: "\<not> P (hd ?a)" by (simp add: hd_dropWhile)
  have "last ?b = last (rev ?a)"
  proof -
    have "rev ?a = takeWhile P (rev ?a) @ ?b" by simp
    then show ?thesis using b by (metis last_appendR)
  qed
  then have lb: "last ?b = hd ?a" using a by (simp add: last_rev)
  have "hd (rev ?b) = last ?b" "last (rev ?b) = hd ?b"
    using b by (simp_all add: hd_rev last_rev)
  then show ?thesis using hb ha lb by (simp add: strip_where_def)
qed

lemma strip_where_idem: "strip_where P (strip_where P s) = strip_where P s"
  by (rule strip_where_fixed) (use strip_where_ends in blast)

lemma strip_idem: "strip (strip s) = strip s"
  by (simp add: strip_def strip_where_idem)

text \<open>A list of names as the normalization leaves it: each name stripped and not empty.\<close>

definition clean :: "string list \<Rightarrow> bool" where
  "clean names = (\<forall>x \<in> set names. strip x = x \<and> x \<noteq> [])"

lemma clean_stripped_nonempty: "clean (stripped_nonempty pieces)"
  by (auto simp: clean_def stripped_nonempty_def strip_idem)

lemma stripped_nonempty_clean: "clean names \<Longrightarrow> stripped_nonempty names = names"
proof (induction names)
  case Nil show ?case by (simp add: stripped_nonempty_def)
next
  case (Cons x names)
  then have "clean names" "strip x = x" "x \<noteq> []" by (auto simp: clean_def)
  then show ?case using Cons.IH by (simp add: stripped_nonempty_def)
qed

lemma clean_default_sections: "clean default_sections"
  unfolding clean_def default_sections_def by code_simp

lemma clean_names_of: "clean fallback \<Longrightarrow> clean (names_of env v fallback)"
  by (cases v) (simp_all add: names_of_def clean_stripped_nonempty)

lemma clean_list_or: "clean xs \<Longrightarrow> clean dflt \<Longrightarrow> clean (list_or xs dflt)"
  by (simp add: list_or_def)

lemma names_of_clean_list:
  "clean names \<Longrightarrow> names_of env (PList (map PStr names)) fallback = names"
  by (simp add: names_of_def comp_def py_str_def stripped_nonempty_clean)

lemma min_tokens_for_le: "min_tokens_for b n \<le> 3500"
  by (simp add: min_tokens_for_def Let_def)

lemma clamp_tokens_idem:
  "clamp_tokens (min_tokens_for b n) (clamp_tokens (min_tokens_for b n) t)
     = clamp_tokens (min_tokens_for b n) t"
  using min_tokens_for_le[of b n] by (simp add: clamp_tokens_def Let_def)

lemma default_tone_stripped:
  "strip ''confident and metric-driven'' = ''confident and metric-driven''"
  by code_simp

text \<open>The shape of a normalized dict: the ten values written over a base dict.\<close>

definition params_of ::
  "parameters \<Rightarrow> string list \<Rightarrow> int \<Rightarrow> rat \<Rightarrow> int \<Rightarrow> string \<Rightarrow> bool \<Rightarrow> bool \<Rightarrow> int
   \<Rightarrow> string list \<Rightarrow> string list \<Rightarrow> parameters"
where
  "params_of base secs b t m tone isum icov sl layout ins =
     base(''sections'' \<mapsto> PList (map PStr secs),
          ''bullets_per_section'' \<mapsto> PInt b,
          ''temperature'' \<mapsto> PFloat t,
          ''max_output_tokens'' \<mapsto> PInt m,
          ''tone'' \<mapsto> PStr tone,
          ''include_summary'' \<mapsto> PBool isum,
          ''include_cover_letter'' \<mapsto> PBool icov,
          ''stretch_level'' \<mapsto> PInt sl,
          ''section_layout'' \<mapsto> PList (map PStr layout),
          ''cover_letter_inserts'' \<mapsto> PList (map PStr ins))"

lemma params_of_lookup:
  "params_of base secs b t m tone isum icov sl layout ins ''sections'' = Some (PList (map PStr secs))"
  "params_of base secs b t m tone isum icov sl layout ins ''bullets_per_section'' = Some (PInt b)"
  "params_of base secs b t m tone isum icov sl layout ins ''temperature'' = Some (PFloat t)"
  "params_of base secs b t m tone isum icov sl layout ins ''max_output_tokens'' = Some (PInt m)"
  "params_of base secs b t m tone isum icov sl layout ins ''tone'' = Some (PStr tone)"
  "params_of base secs b t m tone isum icov sl layout ins ''include_summary'' = Some (PBool isum)"
  "params_of base secs b t m tone isum icov sl layout ins ''include_cover_letter'' = Some (PBool icov)"
  "params_of base secs b t m tone isum icov sl layout ins ''stretch_level'' = Some (PInt sl)"
  "params_of base secs b t m tone isum icov sl layout ins ''section_layout'' = Some (PList (map PStr layout))"
  "params_of base secs b t m tone isum icov sl layout ins ''cover_letter_inserts'' = Some (PList (map PStr ins))"
  by (simp_all add: params_of_def)

lemma merged_params_lookup:
  "(d ++ params_of base secs b t m tone isum icov sl layout ins) ''sections'' = Some (PList (map PStr secs))"
  "(d ++ params_of base secs b t m tone isum icov sl layout ins) ''bullets_per_section'' = Some (PInt b)"
  "(d ++ params_of base secs b t m tone isum icov sl layout ins) ''temperature'' = Some (PFloat t)"
  "(d ++ params_of base secs b t m tone isum icov sl layout ins) ''max_output_tokens'' = Some (PInt m)"
  "(d ++ params_of base secs b t m tone isum icov sl layout ins) ''tone'' = Some (PStr tone)"
  "(d ++ params_of base secs b t m tone isum icov sl layout ins) ''include_summary'' = Some (PBool isum)"
  "(d ++ params_of base secs b t m tone isum icov sl layout ins) ''include_cover_letter'' = Some (PBool icov)"
  "(d ++ params_of base secs b t m tone isum icov sl layout ins) ''stretch_level'' = Some (PInt sl)"
  "(d ++ params_of base secs b t m tone isum icov sl layout ins) ''section_layout'' = Some (PList (map PStr layout))"
  "(d ++ params_of base secs b t m tone isum icov sl layout ins) ''cover_letter_inserts'' = Some (PList (map PStr ins))"
  by (simp_all add: map_add_def params_of_lookup)

lemma params_of_merged:
  "(map_of DEFAULT_PARAMETERS ++ params_of base secs b t m tone isum icov sl layout ins)
     (''sections'' \<mapsto> PList (map PStr secs'),
      ''bullets_per_section'' \<mapsto> PInt b',
      ''temperature'' \<mapsto> PFloat t',
      ''max_output_tokens'' \<mapsto> PInt m',
      ''tone'' \<mapsto> PStr tone',
      ''include_summary'' \<mapsto> PBool isum',
      ''include_cover_letter'' \<mapsto> PBool icov',
      ''stretch_level'' \<mapsto> PInt sl',
      ''section_layout'' \<mapsto> PList (map PStr layout'),
      ''cover_letter_inserts'' \<mapsto> PList (map PStr ins'))
   = params_of base secs' b' t' m' tone' isum' icov' sl' layout' ins'"
proof (rule ext)
  fix key
  show "((map_of DEFAULT_PARAMETERS ++ params_of base secs b t m tone isum icov sl layout ins)
     (''sections'' \<mapsto> PList (map PStr secs'),
      ''bullets_per_section'' \<mapsto> PInt b',
      ''temperature'' \<mapsto> PFloat t',
      ''max_output_tokens'' \<mapsto> PInt m',
      ''tone'' \<mapsto> PStr tone',
      ''include_summary'' \<mapsto> PBool isum',
      ''include_cover_letter'' \<mapsto> PBool icov',
      ''stretch_level'' \<mapsto> PInt sl',
      ''section_layout'' \<mapsto> PList (map PStr layout'),
      ''cover_letter_inserts'' \<mapsto> PList (map PStr ins'))) key
   = params_of base secs' b' t' m' tone' isum' icov' sl' layout' ins' key"
    by (simp add: params_of_def map_add_def DEFAULT_PARAMETERS_def split: option.split)
qed

lemma or_empty_list_names: "or_empty_list (PList (map PStr names)) = PList (map PStr names)"
  by (simp add: or_empty_list_def py_bool_def)

text \<open>Normalizing a dict of that shape sets its layout to its sections and keeps the rest.\<close>

lemma normalize_params_of:
  assumes "clean secs" "secs \<noteq> []" "1 \<le> b"
      and "clamp_tokens (min_tokens_for b (length secs)) m = m"
      and "strip tone = tone" "tone \<noteq> []" "0 \<le> sl" "sl \<le> 3"
      and "clean layout" "layout \<noteq> []" "clean ins"
  shows "normalize_parameters env (params_of base secs b t m tone isum icov sl layout ins)
         = Inr (params_of base secs b t m tone isum icov sl secs ins)"
proof -
  show ?thesis
    unfolding normalize_parameters_def
    using assms
    by (simp add: merged_params_lookup params_of_lookup value_or_def names_of_clean_list list_or_def py_int_def
          py_float_def py_bool_def py_str_def int_or_def or_empty_list_names Let_def
          params_of_merged)
qed

lemma normalize_shape:
  assumes "normalize_parameters env p = Inr p1"
  shows "\<exists>secs b t m tone isum icov sl layout ins.
           p1 = params_of (map_of DEFAULT_PARAMETERS ++ p) secs b t m tone isum icov sl layout ins
         \<and> clean secs \<and> secs \<noteq> [] \<and> 1 \<le> b
         \<and> clamp_tokens (min_tokens_for b (length secs)) m = m
         \<and> strip tone = tone \<and> tone \<noteq> [] \<and> 0 \<le> sl \<and> sl \<le> 3
         \<and> clean layout \<and> layout \<noteq> [] \<and> clean ins
         \<and> (p ''sections'' \<noteq> None \<longrightarrow> layout = secs)"
proof -
  define merged where "merged = map_of DEFAULT_PARAMETERS ++ p"
  define secs where
    "secs = list_or (names_of env (value_or (merged ''sections'') PNone) default_sections)
              default_sections"
  define b where
    "b = (case py_int env (value_or (merged ''bullets_per_section'') (PInt 3)) of
            Inr i \<Rightarrow> max 1 i | Inl e \<Rightarrow> 3)"
  define temperature where
    "temperature = py_float env (value_or (merged ''temperature'') (PFloat (35 / 100)))"
  define tone0 where
    "tone0 = strip (py_str env (value_or (merged ''tone'') (PStr ''confident and metric-driven'')))"
  define tone where "tone = (if tone0 = [] then ''confident and metric-driven'' else tone0)"
  define isum where "isum = py_bool (value_or (merged ''include_summary'') (PBool True))"
  define icov where "icov = py_bool (value_or (merged ''include_cover_letter'') (PBool False))"
  define sl where "sl = max 0 (min 3 (int_or env (value_or (merged ''stretch_level'') (PInt 2)) 2))"
  define layout0 where
    "layout0 = list_or (names_of env (value_or (merged ''section_layout'') PNone) default_sections)
                 default_sections"
  define layout where "layout = (if p ''sections'' \<noteq> None \<and> secs \<noteq> [] then secs else layout0)"
  define ins where
    "ins = names_of env (or_empty_list (value_or (merged ''cover_letter_inserts'') PNone)) []"
  define m where
    "m = clamp_tokens
           (min_tokens_for b (if length secs \<noteq> 0 then length secs else length layout))
           (int_or env (value_or (merged ''max_output_tokens'') (PInt 3500)) 3500)"
  have eq: "normalize_parameters env p =
              (case temperature of
                 Inl e \<Rightarrow> (if caught e
                           then Inr (params_of merged secs b (35 / 100) m tone isum icov sl layout ins)
                           else Inl e)
               | Inr t \<Rightarrow> Inr (params_of merged secs b t m tone isum icov sl layout ins))"
    unfolding normalize_parameters_def params_of_def Let_def
      merged_def secs_def b_def temperature_def tone0_def tone_def isum_def icov_def sl_def
      layout0_def layout_def ins_def m_def
    by (rule refl)
  have secs: "clean secs" "secs \<noteq> []"
    using clean_default_sections
    by (auto simp: secs_def list_or_def clean_names_of default_sections_def)
  have layout0: "clean layout0" "layout0 \<noteq> []"
    using clean_default_sections
    by (auto simp: layout0_def list_or_def clean_names_of default_sections_def)
  have layout: "clean layout" "layout \<noteq> []" "p ''sections'' \<noteq> None \<longrightarrow> layout = secs"
    using secs layout0 by (auto simp: layout_def)
  have b: "1 \<le> b" by (simp add: b_def split: sum.split)
  have m: "clamp_tokens (min_tokens_for b (length secs)) m = m"
    using secs(2) by (simp add: m_def clamp_tokens_idem)
  have tone: "strip tone = tone" "tone \<noteq> []"
    by (simp_all add: tone_def tone0_def strip_idem default_tone_stripped)
  have sl: "0 \<le> sl" "sl \<le> 3" by (simp_all add: sl_def)
  have "clean []" by (simp add: clean_def)
  then have ins: "clean ins"
    unfolding ins_def by (rule clean_names_of)
  obtain t where p1: "p1 = params_of merged secs b t m tone isum icov sl layout ins"
    using assms unfolding eq by (auto split: sum.splits if_splits)
  show ?thesis
    unfolding merged_def[symmetric]
    using p1 secs b m tone sl layout ins by blast
qed

text \<open>
  Claim C3, as amended. Normalizing a second time gives the normalized dict with its
  \<^verbatim>\<open>section_layout\<close> set to its \<^verbatim>\<open>sections\<close> and nothing else changed (and the
  exception of the first call, when it raises). So \<^verbatim>\<open>normalize_parameters\<close> is idempotent on
  every parameter dict that has the key \<^verbatim>\<open>sections\<close>.
\<close>

theorem normalize_parameters_twice:
  "normalize_twice env p =
     (case normalize_parameters env p of
        Inl e \<Rightarrow> Inl e
      | Inr normalized \<Rightarrow> Inr (normalized(''section_layout'' := normalized ''sections'')))
   \<and> (p ''sections'' \<noteq> None \<longrightarrow> normalize_twice env p = normalize_parameters env p)"
proof (cases "normalize_parameters env p")
  case (Inl e)
  then show ?thesis by (simp add: normalize_twice_def)
next
  case (Inr p1)
  obtain secs b t m tone isum icov sl layout ins where
      p1: "p1 = params_of (map_of DEFAULT_PARAMETERS ++ p) secs b t m tone isum icov sl layout ins"
      and c: "clean secs" "secs \<noteq> []" "1 \<le> b"
         "clamp_tokens (min_tokens_for b (length secs)) m = m"
         "strip tone = tone" "tone \<noteq> []" "0 \<le> sl" "sl \<le> 3"
         "clean layout" "layout \<noteq> []" "clean ins"
      and same: "p ''sections'' \<noteq> None \<longrightarrow> layout = secs"
    using normalize_shape[OF Inr] by blast
  let ?base = "map_of DEFAULT_PARAMETERS ++ p"
  have again: "normalize_parameters env p1 = Inr (params_of ?base secs b t m tone isum icov sl secs ins)"
    unfolding p1 by (rule normalize_params_of[OF c])
  have upd: "p1(''section_layout'' := p1 ''sections'')
             = params_of ?base secs b t m tone isum icov sl secs ins"
    unfolding p1 by (rule ext) (simp add: params_of_def)
  have first: "normalize_twice env p = Inr (p1(''section_layout'' := p1 ''sections''))"
    by (simp add: normalize_twice_def Inr again upd)
  have second: "normalize_twice env p = normalize_parameters env p" if "p ''sections'' \<noteq> None"
  proof -
    have "layout = secs" using same that by simp
    then have "params_of ?base secs b t m tone isum icov sl secs ins = p1"
      by (simp only: p1)
    then have "normalize_parameters env p1 = Inr p1"
      using again by (simp only:)
    then show ?thesis by (simp only: normalize_twice_def Inr sum.case)
  qed
  show ?thesis using first second by (simp add: Inr)
qed

definition layout_only_example :: parameters where
  "layout_only_example = [''section_layout'' \<mapsto> PList [PStr ''Results'']]"

definition sections_example :: parameters where
  "sections_example =
     [''sections'' \<mapsto> PStr ''Results, Leadership'', ''bullets_per_section'' \<mapsto> PStr ''4'',
      ''section_layout'' \<mapsto> PList [PStr ''Projects'']]"

theorem normalize_parameters_twice_witness:
  "sections_example ''sections'' \<noteq> None
   \<and> param_of (normalize_parameters builtins_example sections_example) ''section_layout''
       = Some (PList [PStr ''Results'', PStr ''Leadership''])
   \<and> normalize_twice builtins_example sections_example
       = normalize_parameters builtins_example sections_example"
proof -
  have h: "sections_example ''sections'' \<noteq> None"
    by (simp add: sections_example_def)
  have v: "param_of (normalize_parameters builtins_example sections_example) ''section_layout''
           = Some (PList [PStr ''Results'', PStr ''Leadership''])"
    by code_simp
  have "normalize_twice builtins_example sections_example
        = normalize_parameters builtins_example sections_example"
    using normalize_parameters_twice[of builtins_example sections_example, THEN conjunct2] h
    by (rule mp)
  then show ?thesis using h v by simp
qed

text \<open>
  Claim C3 as stated fails on a dict that gives \<^verbatim>\<open>section_layout\<close> and no \<^verbatim>\<open>sections\<close>: the
  first normalization keeps the layout, the second one replaces it by the default sections,
  which the first one has put into the dict.
\<close>

theorem normalize_parameters_not_idempotent_counterexample:
  "param_of (normalize_parameters builtins_example layout_only_example) ''section_layout''
     = Some (PList [PStr ''Results''])
   \<and> param_of (normalize_twice builtins_example layout_only_example) ''section_layout''
       = Some (PList [PStr ''Professional Experience'', PStr ''Leadership'', PStr ''Projects''])"
  by code_simp

end
